theory Spec2Isabelle
  imports Main "HOL-Library.Word" "HOL-Library.Signed_Division" "HOL-Library.Monad_Syntax"
begin

unbundle bit_operations_syntax

section \<open>Machine integers\<close>

type_synonym u8 = "8 word"
type_synonym u16 = "16 word"
type_synonym u32 = "32 word"

text \<open>
  A C \<open>int\<close> is a HOL integer in the range of 32 bits; \<open>c_int\<close> is the value an
  arithmetic result or a conversion from \<open>uint32_t\<close> takes when it is stored in an
  \<open>int\<close> (two's complement). \<open>time_t\<close> values are integers (seconds).
\<close>

definition c_int :: "int \<Rightarrow> int" where
  "c_int x = signed_take_bit 31 x"

type_synonym time_t = int

text \<open>
  Modelled from the spec: the sentinels of slurm.h, which is not part of the sources.
  Step ids from 0xfffffff0 on are reserved for them.
\<close>

definition NO_VAL :: u32 where
  "NO_VAL = 0xfffffffe"

definition INFINITE :: u32 where
  "INFINITE = 0xffffffff"

definition NO_VAL16 :: u16 where
  "NO_VAL16 = 0xfffe"

section \<open>Bit strings\<close>

text \<open>
  Modelled from the spec: the bitstring library (src/common/bitstring.c) is not part of
  the sources. A bit string is the list of its bits, bit 0 first; its size is the length
  of the list. The library asserts that an index is inside the bit string; the model
  reads a bit outside as clear and writes outside nowhere.
\<close>

type_synonym bitstr = "bool list"

definition bit_size :: "bitstr \<Rightarrow> int" where
  "bit_size b = int (length b)"

definition bit_test :: "bitstr \<Rightarrow> int \<Rightarrow> bool" where
  "bit_test b i = (0 \<le> i \<and> i < int (length b) \<and> b ! nat i)"

definition bit_set :: "bitstr \<Rightarrow> int \<Rightarrow> bitstr" where
  "bit_set b i = (if 0 \<le> i then b[nat i := True] else b)"

definition bit_clear :: "bitstr \<Rightarrow> int \<Rightarrow> bitstr" where
  "bit_clear b i = (if 0 \<le> i then b[nat i := False] else b)"

definition bit_alloc :: "int \<Rightarrow> bitstr" where
  "bit_alloc n = replicate (nat n) False"

definition bit_not :: "bitstr \<Rightarrow> bitstr" where
  "bit_not b = map Not b"

definition bit_and :: "bitstr \<Rightarrow> bitstr \<Rightarrow> bitstr" where
  "bit_and b1 b2 = map (\<lambda>i. b1 ! i \<and> bit_test b2 (int i)) [0..<length b1]"

definition bit_or :: "bitstr \<Rightarrow> bitstr \<Rightarrow> bitstr" where
  "bit_or b1 b2 = map (\<lambda>i. b1 ! i \<or> bit_test b2 (int i)) [0..<length b1]"

definition bit_set_count :: "bitstr \<Rightarrow> int" where
  "bit_set_count b = int (length (filter (\<lambda>x. x) b))"

definition bit_clear_count :: "bitstr \<Rightarrow> int" where
  "bit_clear_count b = int (length (filter Not b))"

fun ffs_from :: "bitstr \<Rightarrow> int \<Rightarrow> int" where
  "ffs_from [] k = -1"
| "ffs_from (x # xs) k = (if x then k else ffs_from xs (k + 1))"

definition bit_ffs :: "bitstr \<Rightarrow> int" where
  "bit_ffs b = ffs_from b 0"

fun fls_from :: "bitstr \<Rightarrow> int \<Rightarrow> int \<Rightarrow> int" where
  "fls_from [] k found = found"
| "fls_from (x # xs) k found = fls_from xs (k + 1) (if x then k else found)"

definition bit_fls :: "bitstr \<Rightarrow> int" where
  "bit_fls b = fls_from b 0 (-1)"

text \<open>\<open>bit_super_set b1 b2\<close>: every bit set in \<open>b1\<close> is set in \<open>b2\<close>.\<close>

definition bit_super_set :: "bitstr \<Rightarrow> bitstr \<Rightarrow> bool" where
  "bit_super_set b1 b2 = list_all (\<lambda>i. b1 ! i \<longrightarrow> bit_test b2 (int i)) [0..<length b1]"

definition bit_equal :: "bitstr \<Rightarrow> bitstr \<Rightarrow> bool" where
  "bit_equal b1 b2 = (b1 = b2)"

definition bit_nset :: "bitstr \<Rightarrow> int \<Rightarrow> int \<Rightarrow> bitstr" where
  "bit_nset b start stop =
     map (\<lambda>i. b ! i \<or> (start \<le> int i \<and> int i \<le> stop)) [0..<length b]"

text \<open>
  \<open>bit_pick_cnt b n\<close>: a bit string of the size of \<open>b\<close> holding the first \<open>n\<close> set bits
  of \<open>b\<close>, or nothing (NULL) when \<open>b\<close> has fewer than \<open>n\<close> bits set.
\<close>

fun pick_first :: "bitstr \<Rightarrow> nat \<Rightarrow> bitstr" where
  "pick_first [] n = []"
| "pick_first (x # xs) n =
     (if x \<and> 0 < n then True # pick_first xs (n - 1) else False # pick_first xs n)"

definition bit_pick_cnt :: "bitstr \<Rightarrow> int \<Rightarrow> bitstr option" where
  "bit_pick_cnt b n =
     (if bit_set_count b < n then None else Some (pick_first b (nat n)))"

text \<open>
  \<open>bit_get_pos_num b pos\<close>: the number of bits set up to and including \<open>pos\<close>, minus
  one; -1 when bit \<open>pos\<close> is clear.
\<close>

definition bit_get_pos_num :: "bitstr \<Rightarrow> int \<Rightarrow> int" where
  "bit_get_pos_num b pos =
     (if bit_test b pos then bit_set_count (take (nat pos + 1) b) - 1 else -1)"

section \<open>Return codes\<close>

datatype rc =
    SLURM_SUCCESS
  | SLURM_ERROR
  | ENOENT
  | EINVAL
  | ESLURM_INVALID_JOB_ID
  | ESLURM_USER_ID_MISSING
  | ESLURM_ALREADY_DONE
  | ESLURM_TRANSITION_STATE_NO_UPDATE
  | ESLURM_DISABLED
  | ESLURM_DUPLICATE_JOB_ID
  | ESLURM_ACCESS_DENIED
  | ESLURM_BAD_DIST
  | ESLURM_TASKDIST_ARBITRARY_UNSUPPORTED
  | ESLURM_PATHNAME_TOO_LONG
  | ESLURM_BAD_TASK_COUNT
  | ESLURM_REQUESTED_NODE_CONFIG_UNAVAILABLE
  | ESLURM_INVALID_NODE_COUNT
  | ESLURM_PROLOG_RUNNING
  | ESLURM_NODES_BUSY
  | ESLURM_INVALID_TASK_MEMORY
  | ESLURM_INVALID_GRES
  | ESLURM_TOO_MANY_REQUESTED_CPUS
  | ESLURM_NODE_NOT_AVAIL
  | ESLURMD_TOOMANYSTEPS
  | ESLURM_INVALID_TIME_LIMIT
  | ESLURM_INTERCONNECT_FAILURE
  | ESLURM_JOB_PENDING

section \<open>Data model\<close>

text \<open>
  The structures of slurmctld.h, job_resources.h and slurm.h are not part of the sources;
  the records hold the fields step_mgr.c reads and writes, with the widths of its pack
  calls and local variables. A field name used by two structures carries the structure's
  prefix in all but one of them. A pointer that may be NULL is an option. The
  generic-resource lists are opaque values of type \<open>'g\<close>.
\<close>

datatype task_dist_states =
    SLURM_DIST_CYCLIC
  | SLURM_DIST_BLOCK
  | SLURM_DIST_ARBITRARY
  | SLURM_DIST_PLANE
  | SLURM_DIST_CYCLIC_CYCLIC
  | SLURM_DIST_CYCLIC_BLOCK
  | SLURM_DIST_BLOCK_CYCLIC
  | SLURM_DIST_BLOCK_BLOCK
  | SLURM_NO_LLLP_DIST
  | SLURM_DIST_UNKNOWN

record slurm_step_layout =
  node_cnt :: u32
  node_list :: "string option"
  tasks :: "u16 list"

record 'g step_record =
  step_id :: u32
  batch_step :: u16
  ckpt_interval :: u16
  ckpt_time :: time_t
  ckpt_dir :: "string option"
  check_job :: bool
  core_bitmap_job :: "bitstr option"
  cpu_count :: u32
  cpus_per_task :: u16
  cyclic_alloc :: u16
  exclusive :: u16
  exit_code :: u32
  exit_node_bitmap :: "bitstr option"
  gres :: "string option"
  gres_list :: "'g option"
  host :: "string option"
  mem_per_cpu :: u32
  name :: "string option"
  network :: "string option"
  no_kill :: u8
  port :: u16
  pre_sus_time :: time_t
  requid :: int
  resv_port_cnt :: u16
  start_time :: time_t
  step_layout :: "slurm_step_layout option"
  step_node_bitmap :: bitstr
  switch_job :: bool
  time_limit :: u32
  tot_sus_time :: time_t

record job_resources =
  core_bitmap :: bitstr
  core_bitmap_used :: bitstr
  cpu_array_cnt :: u32
  cpu_array_value :: "u16 list option"
  cpus :: "u16 list"
  cpus_used :: "u16 list"
  cores_per_socket :: "u16 list"
  memory_allocated :: "u32 list option"
  memory_used :: "u32 list option"
  nhosts :: u32
  node_bitmap :: bitstr
  sock_core_rep_count :: "u32 list"
  sockets_per_node :: "u16 list"

record 'g job_record =
  job_id :: u32
  user_id :: u32
  job_state :: u16
  batch_host :: "string option"
  db_index :: u32
  derived_ec :: u32
  details_prolog_running :: "u8 option"
  end_time :: time_t
  job_gres_list :: 'g
  job_name :: "string option"
  job_network :: "string option"
  job_node_bitmap :: "bitstr option"
  job_resrcs :: job_resources
  job_start_time :: time_t
  job_time_limit :: u32
  next_step_id :: u32
  nodes :: "string option"
  part_max_time :: u32
  step_list :: "'g step_record list"
  suspend_time :: time_t
  time_last_active :: time_t
  total_cpus :: u32

text \<open>
  \<open>details_prolog_running\<close> is \<open>job_ptr->details\<close> (NULL or the details, of which
  only \<open>prolog_running\<close> is read); \<open>part_max_time\<close> is \<open>job_ptr->part_ptr->max_time\<close>.
  \<open>switch_job\<close> and \<open>check_job\<close> say whether the plugin handle is allocated.
  \<open>job_resrcs\<close>, its \<open>cpus\<close> and \<open>cpus_used\<close> are never NULL (the functions assert it).
\<close>

record node_record =
  node_name :: string
  node_power_save :: bool
  node_no_respond :: bool
  node_cpus :: u16
  node_config_cpus :: u16

text \<open>
  The controller's global state and configuration that step_mgr.c reads:
  the node table, \<open>up_node_bitmap\<close>, \<open>slurmctld_conf\<close>, the clock, the daemon's uid and
  the two build options; \<open>stack_size\<close> is the number of bytes of stack that the
  variable-length arrays of a function may take.
\<close>

record ctld =
  node_record_table :: "node_record list"
  up_node_bitmap :: bitstr
  switch_type :: string
  max_tasks_per_node :: u16
  enforce_part_limits :: u16
  fast_schedule :: u16
  select_type_param :: u16
  now :: time_t
  getuid :: u32
  have_bg :: bool
  have_front_end :: bool
  stack_size :: int

definition node_record_count :: "ctld \<Rightarrow> int" where
  "node_record_count c = int (length (node_record_table c))"

text \<open>Modelled from the spec: the bit \<open>CR_MEMORY\<close> of slurm.h.\<close>

definition CR_MEMORY :: u16 where
  "CR_MEMORY = 0x0010"

definition is_mem_resv :: "ctld \<Rightarrow> bool" where
  "is_mem_resv c = (select_type_param c AND CR_MEMORY \<noteq> 0)"

text \<open>
  Modelled from the spec: the job states of slurm.h and the macros over them.
\<close>

definition JOB_PENDING :: u16 where "JOB_PENDING = 0"
definition JOB_RUNNING :: u16 where "JOB_RUNNING = 1"
definition JOB_SUSPENDED :: u16 where "JOB_SUSPENDED = 2"
definition JOB_STATE_BASE :: u16 where "JOB_STATE_BASE = 0x00ff"
definition JOB_CONFIGURING :: u16 where "JOB_CONFIGURING = 0x4000"

definition IS_JOB_PENDING :: "('g, 'z) job_record_scheme \<Rightarrow> bool" where
  "IS_JOB_PENDING j = (job_state j AND JOB_STATE_BASE = JOB_PENDING)"

definition IS_JOB_RUNNING :: "('g, 'z) job_record_scheme \<Rightarrow> bool" where
  "IS_JOB_RUNNING j = (job_state j AND JOB_STATE_BASE = JOB_RUNNING)"

definition IS_JOB_SUSPENDED :: "('g, 'z) job_record_scheme \<Rightarrow> bool" where
  "IS_JOB_SUSPENDED j = (job_state j AND JOB_STATE_BASE = JOB_SUSPENDED)"

definition IS_JOB_FINISHED :: "('g, 'z) job_record_scheme \<Rightarrow> bool" where
  "IS_JOB_FINISHED j = (job_state j AND JOB_STATE_BASE > JOB_SUSPENDED)"

section \<open>The step registry\<close>

text \<open>
  A zero-filled step record, as \<open>xmalloc\<close> returns it. The node bitmap of a record
  is NULL until \<open>step_create\<close> sets it; the model holds the empty bit string then.
\<close>

definition zero_step :: "'g step_record" where
  "zero_step = \<lparr> step_id = 0, batch_step = 0, ckpt_interval = 0, ckpt_time = 0,
     ckpt_dir = None, check_job = False, core_bitmap_job = None, cpu_count = 0,
     cpus_per_task = 0, cyclic_alloc = 0, exclusive = 0, exit_code = 0,
     exit_node_bitmap = None, gres = None, gres_list = None, host = None,
     mem_per_cpu = 0, name = None, network = None, no_kill = 0, port = 0,
     pre_sus_time = 0, requid = 0, resv_port_cnt = 0, start_time = 0,
     step_layout = None, step_node_bitmap = [], switch_job = False, time_limit = 0,
     tot_sus_time = 0 \<rparr>"

text \<open>
  \<open>_create_step_record\<close>: NULL when the job has used up its step ids, otherwise a new
  record appended to the job's step list. The result is the record and the job.
\<close>

definition create_step_record ::
  "ctld \<Rightarrow> 'g job_record \<Rightarrow> ('g step_record \<times> 'g job_record) option" where
  "create_step_record c job_ptr =
     (if next_step_id job_ptr \<ge> 0xfffffff0 then None
      else
        let step_ptr = zero_step \<lparr> start_time := now c, time_limit := INFINITE,
                                    requid := -1 \<rparr>
        in Some (step_ptr, job_ptr \<lparr> step_list := step_list job_ptr @ [step_ptr] \<rparr>))"

text \<open>
  A step pointer is the position of the record in the step list; \<open>store_step\<close> writes
  through it.
\<close>

definition store_step :: "'g job_record \<Rightarrow> nat \<Rightarrow> 'g step_record \<Rightarrow> 'g job_record" where
  "store_step job_ptr k step_ptr =
     job_ptr \<lparr> step_list := (step_list job_ptr)[k := step_ptr] \<rparr>"

fun remove_step :: "u32 \<Rightarrow> 'g step_record list \<Rightarrow> 'g step_record list option" where
  "remove_step sid [] = None"
| "remove_step sid (s # ss) =
     (if step_id s = sid then Some ss
      else case remove_step sid ss of None \<Rightarrow> None | Some ss' \<Rightarrow> Some (s # ss'))"

text \<open>
  \<open>delete_step_record\<close>: removes the first record with the step id; 0 (success) or
  \<open>ENOENT\<close>.
\<close>

definition delete_step_record :: "'g job_record \<Rightarrow> u32 \<Rightarrow> rc \<times> 'g job_record" where
  "delete_step_record job_ptr sid =
     (case remove_step sid (step_list job_ptr) of
        None \<Rightarrow> (ENOENT, job_ptr)
      | Some ss \<Rightarrow> (SLURM_SUCCESS, job_ptr \<lparr> step_list := ss \<rparr>))"

fun find_step_from :: "u32 \<Rightarrow> 'g step_record list \<Rightarrow> nat \<Rightarrow> nat option" where
  "find_step_from sid [] k = None"
| "find_step_from sid (s # ss) k =
     (if step_id s = sid \<or> sid = NO_VAL then Some k else find_step_from sid ss (Suc k))"

text \<open>
  \<open>find_step_record\<close>: the first record with the step id, or the first record of all
  for \<open>NO_VAL\<close>; NULL when there is none or the job is NULL.
\<close>

definition find_step_record :: "'g job_record option \<Rightarrow> u32 \<Rightarrow> nat option" where
  "find_step_record job_ptr sid =
     (case job_ptr of
        None \<Rightarrow> None
      | Some j \<Rightarrow> find_step_from sid (step_list j) 0)"

section \<open>Releasing a step's processors and memory\<close>

datatype log_event = Cpu_underflow | Mem_underflow






section \<open>Plugins and outbound requests\<close>

text \<open>
  The functions of other files that step_mgr.c calls and whose code is not part of the
  sources are parameters of the model: the generic-resource plugin, the layout routine,
  the port manager, the switch and checkpoint plugins, the node-name parser and the
  user check. \<open>switch_alloc_jobinfo\<close>, \<open>switch_build_jobinfo\<close> and
  \<open>checkpoint_alloc_jobinfo\<close> give the C return value (negative on failure);
  \<open>node_name2bitmap\<close> gives the bitmap, or nothing when it returns an error code. The two accessors of
  job_resources.c are parameters as well: \<open>get_job_resources_cnt jr node\<close> gives the
  sockets and the cores per socket of a node of the job (nothing on error), and
  \<open>get_job_resources_offset jr node socket core\<close> the position of a core in the
  job's core bitmaps (negative on error).
\<close>

record 'g plugins =
  gres_plugin_step_state_validate ::
    "string option \<Rightarrow> 'g \<Rightarrow> u32 \<Rightarrow> u32 \<Rightarrow> rc \<times> 'g option"
  gres_plugin_step_test :: "'g option \<Rightarrow> 'g \<Rightarrow> int \<Rightarrow> bool \<Rightarrow> u32 \<Rightarrow> u32 \<Rightarrow> u32"
  gres_plugin_step_alloc ::
    "'g option \<Rightarrow> 'g \<Rightarrow> int \<Rightarrow> int \<Rightarrow> u32 \<Rightarrow> u32 \<Rightarrow> 'g option \<times> 'g"
  gres_plugin_step_dealloc :: "'g option \<Rightarrow> 'g \<Rightarrow> u32 \<Rightarrow> u32 \<Rightarrow> 'g option \<times> 'g"
  slurm_step_layout_create ::
    "string option \<Rightarrow> u16 list \<Rightarrow> u32 list \<Rightarrow> u32 \<Rightarrow> u32 \<Rightarrow> u16 \<Rightarrow> task_dist_states
       \<Rightarrow> u32 \<Rightarrow> slurm_step_layout option"
  resv_port_alloc :: "'g step_record \<Rightarrow> rc"
  switch_alloc_jobinfo :: int
  switch_build_jobinfo :: "string option \<Rightarrow> u16 list \<Rightarrow> u16 \<Rightarrow> string option \<Rightarrow> int"
  checkpoint_alloc_jobinfo :: int
  node_name2bitmap :: "string \<Rightarrow> bitstr option"
  bitmap2node_name :: "bitstr \<Rightarrow> string option"
  validate_slurm_user :: "u32 \<Rightarrow> bool"
  switch_g_part_comp :: bool
  get_job_resources_cnt :: "job_resources \<Rightarrow> int \<Rightarrow> (u16 \<times> u16) option"
  get_job_resources_offset :: "job_resources \<Rightarrow> int \<Rightarrow> int \<Rightarrow> int \<Rightarrow> int"

text \<open>
  What a function hands to the agent or to the switch plugin, in the order of the calls.
  A kill request carries the message type, the host list, the job id and the step id.
\<close>

datatype msg_type = REQUEST_KILL_TIMELIMIT | REQUEST_SIGNAL_TASKS | REQUEST_TERMINATE_TASKS

datatype event =
    Agent_queue_request msg_type "string list" u32 u32
  | Switch_job_step_complete "string option"
  | Switch_job_step_part_comp "string option"
  | Log log_event

section \<open>Completing a step\<close>


section \<open>Partial completion\<close>

record step_complete_msg =
  req_job_id :: u32
  req_job_step_id :: u32
  range_first :: u32
  range_last :: u32
  step_rc :: u32

text \<open>
  \<open>_step_range_to_hostlist\<close>: the names of the step's nodes whose position in the
  step lies in the range. The loop runs over the node table; \<open>node_inx\<close> is the
  position of the previous step node.
\<close>

fun step_range_nodes ::
  "ctld \<Rightarrow> bitstr \<Rightarrow> u32 \<Rightarrow> u32 \<Rightarrow> int list \<Rightarrow> int \<Rightarrow> string list" where
  "step_range_nodes c bm first_inx last_inx [] node_inx = []"
| "step_range_nodes c bm first_inx last_inx (i # rest) node_inx =
     (if \<not> bit_test bm i then step_range_nodes c bm first_inx last_inx rest node_inx
      else
        (if (word_of_int (node_inx + 1) :: u32) \<ge> first_inx \<and>
            (word_of_int (node_inx + 1) :: u32) \<le> last_inx
         then [node_name (node_record_table c ! nat i)] else []) @
        step_range_nodes c bm first_inx last_inx rest (node_inx + 1))"

definition step_range_to_hostlist ::
  "ctld \<Rightarrow> 'g step_record \<Rightarrow> u32 \<Rightarrow> u32 \<Rightarrow> string list" where
  "step_range_to_hostlist c step_ptr first_inx last_inx =
     step_range_nodes c (step_node_bitmap step_ptr) first_inx last_inx
       [0..node_record_count c - 1] (-1)"

text \<open>Modelled from the spec: \<open>hostlist_ranged_string_xmalloc\<close>, here the names joined by commas.\<close>

fun hostlist_ranged_string :: "string list \<Rightarrow> string" where
  "hostlist_ranged_string [] = []"
| "hostlist_ranged_string [h] = h"
| "hostlist_ranged_string (h # hs) = h @ '','' @ hostlist_ranged_string hs"

definition layout_node_list :: "'g step_record \<Rightarrow> string option" where
  "layout_node_list step_ptr =
     (case step_layout step_ptr of None \<Rightarrow> None | Some lay \<Rightarrow> node_list lay)"

text \<open>
  \<open>step_partial_comp\<close>: the return code, the job, the two results \<open>rem\<close> and
  \<open>max_rc\<close> where the source sets them, and the calls of the switch plugin.
\<close>

definition step_partial_comp ::
  "ctld \<Rightarrow> 'g plugins \<Rightarrow> 'g job_record option \<Rightarrow> step_complete_msg \<Rightarrow> u32
     \<Rightarrow> rc \<times> 'g job_record option \<times> (int \<times> u32) option \<times> event list" where
  "step_partial_comp c p job_ptr req uid =
     (case job_ptr of
        None \<Rightarrow> (ESLURM_INVALID_JOB_ID, None, None, [])
      | Some j \<Rightarrow>
          if IS_JOB_PENDING j then (ESLURM_JOB_PENDING, Some j, None, [])
          else if \<not> validate_slurm_user p uid \<and> uid \<noteq> user_id j
          then (ESLURM_USER_ID_MISSING, Some j, None, [])
          else
            (case find_step_record (Some j) (req_job_step_id req) of
               None \<Rightarrow> (ESLURM_INVALID_JOB_ID, Some j, None, [])
             | Some k \<Rightarrow>
                 let step_ptr = step_list j ! k in
                   if batch_step step_ptr \<noteq> 0
                   then (SLURM_SUCCESS,
                         Some (store_step j k (step_ptr \<lparr> exit_code := step_rc req \<rparr>)),
                         Some (0, step_rc req), [])
                   else if range_last req < range_first req then (EINVAL, Some j, None, [])
                   else
                     let nodes = (case exit_node_bitmap step_ptr of
                                    None \<Rightarrow> bit_set_count (step_node_bitmap step_ptr)
                                  | Some b \<Rightarrow> bit_size b)
                     in
                       if range_last req \<ge> word_of_int nodes then (EINVAL, Some j, None, [])
                       else
                         let st1 = (case exit_node_bitmap step_ptr of
                                      None \<Rightarrow> step_ptr \<lparr> exit_node_bitmap := Some (bit_alloc nodes),
                                                          exit_code := step_rc req \<rparr>
                                    | Some b \<Rightarrow> step_ptr \<lparr> exit_code :=
                                                   max (exit_code step_ptr) (step_rc req) \<rparr>);
                             bm = bit_nset (the (exit_node_bitmap st1))
                                    (c_int (uint (range_first req))) (c_int (uint (range_last req)));
                             st2 = st1 \<lparr> exit_node_bitmap := Some bm \<rparr>;
                             rem_nodes = bit_clear_count bm;
                             (st3, evs) =
                               (if rem_nodes = 0 then
                                  (if switch_job st2
                                   then (st2 \<lparr> switch_job := False \<rparr>,
                                         [Switch_job_step_complete (layout_node_list st2)])
                                   else (st2, []))
                                else if switch_g_part_comp p \<and> switch_job st2
                                then (st2, [Switch_job_step_part_comp
                                              (Some (hostlist_ranged_string
                                                 (step_range_to_hostlist c st2
                                                    (range_first req) (range_last req))))])
                                else (st2, []))
                         in (SLURM_SUCCESS, Some (store_step j k st3),
                             Some (rem_nodes, exit_code st3), evs)))"

section \<open>Time limits\<close>

text \<open>
  The loop \<open>for (i = 0; i < node_record_count; i++)\<close> of \<open>_signal_step_timelimit\<close>
  (and of \<open>signal_step_tasks\<close>) without a front end: the name of every node whose bit
  is set is pushed on the host list.
\<close>

fun hostlist_push_nodes :: "ctld \<Rightarrow> bitstr \<Rightarrow> int list \<Rightarrow> string list \<Rightarrow> string list" where
  "hostlist_push_nodes c bm [] hostlist = hostlist"
| "hostlist_push_nodes c bm (i # rest) hostlist =
     (if \<not> bit_test bm i then hostlist_push_nodes c bm rest hostlist
      else hostlist_push_nodes c bm rest
             (hostlist @ [node_name (node_record_table c ! nat i)]))"

definition bitmap_hostlist :: "ctld \<Rightarrow> bitstr \<Rightarrow> string list" where
  "bitmap_hostlist c bm = hostlist_push_nodes c bm [0..node_record_count c - 1] []"

text \<open>
  \<open>_signal_step_timelimit\<close>: the request queued for the agent, none when the host
  list is empty. With a front end the host list is the job's \<open>batch_host\<close>, which the
  source asserts to be set; no result means that it is not.
\<close>

definition signal_step_timelimit ::
  "ctld \<Rightarrow> 'g job_record \<Rightarrow> 'g step_record \<Rightarrow> time_t \<Rightarrow> event list option" where
  "signal_step_timelimit c job_ptr step_ptr t =
     (if have_front_end c then
        (case batch_host job_ptr of
           None \<Rightarrow> None
         | Some h \<Rightarrow> Some [Agent_queue_request REQUEST_KILL_TIMELIMIT [h]
                             (job_id job_ptr) (step_id step_ptr)])
      else
        let hl = bitmap_hostlist c (step_node_bitmap step_ptr) in
          if hl = [] then Some []
          else Some [Agent_queue_request REQUEST_KILL_TIMELIMIT hl
                       (job_id job_ptr) (step_id step_ptr)])"

text \<open>The minutes a step has run, as \<open>check_job_step_time_limit\<close> computes them.\<close>

definition job_run_mins :: "'g step_record \<Rightarrow> time_t \<Rightarrow> u32" where
  "job_run_mins step_ptr t =
     word_of_int (((t - start_time step_ptr) - tot_sus_time step_ptr) sdiv 60)"

fun check_steps ::
  "ctld \<Rightarrow> 'g job_record \<Rightarrow> time_t \<Rightarrow> 'g step_record list \<Rightarrow> event list option" where
  "check_steps c job_ptr t [] = Some []"
| "check_steps c job_ptr t (step_ptr # rest) =
     (if time_limit step_ptr = INFINITE \<or> time_limit step_ptr = NO_VAL
      then check_steps c job_ptr t rest
      else if job_run_mins step_ptr t \<ge> time_limit step_ptr then
        (case signal_step_timelimit c job_ptr step_ptr t of
           None \<Rightarrow> None
         | Some evs \<Rightarrow>
             (case check_steps c job_ptr t rest of
                None \<Rightarrow> None
              | Some evs' \<Rightarrow> Some (evs @ evs')))
      else check_steps c job_ptr t rest)"

text \<open>
  \<open>check_job_step_time_limit\<close>: the job, which the function leaves as it is, and the
  requests queued.
\<close>

definition check_job_step_time_limit ::
  "ctld \<Rightarrow> 'g job_record \<Rightarrow> time_t \<Rightarrow> ('g job_record \<times> event list) option" where
  "check_job_step_time_limit c job_ptr t =
     (if job_state job_ptr \<noteq> JOB_RUNNING then Some (job_ptr, [])
      else
        (case check_steps c job_ptr t (step_list job_ptr) of
           None \<Rightarrow> None
         | Some evs \<Rightarrow> Some (job_ptr, evs)))"

section \<open>Picking cores\<close>

text \<open>
  \<open>_pick_step_cores\<close>. The pairs (core, socket) in the order of the two nested loops of
  the first pass, and of the second pass, which starts at core \<open>last_core_inx\<close>.
\<close>

definition core_sock_pairs :: "int list \<Rightarrow> u16 \<Rightarrow> (int \<times> int) list" where
  "core_sock_pairs core_order sockets =
     concat (map (\<lambda>core_inx. map (\<lambda>sock_inx. (core_inx, sock_inx)) [0..uint sockets - 1])
               core_order)"

definition use_all_cores :: "u16 \<Rightarrow> u16 \<Rightarrow> u16 \<Rightarrow> bool" where
  "use_all_cores task_cnt cores sockets \<longleftrightarrow> uint task_cnt = c_int (uint cores * uint sockets)"

definition step_cpu_cnt :: "'g step_record \<Rightarrow> u16 \<Rightarrow> int" where
  "step_cpu_cnt step_ptr task_cnt =
     (if cpus_per_task step_ptr > 0 then c_int (uint task_cnt * uint (cpus_per_task step_ptr))
      else uint task_cnt)"

text \<open>
  The first pass ("select idle cores first") over the remaining pairs: the step's
  bitmap, the job's bitmap of used cores, the count of processors still to find, and
  whether the function has returned (the count reached 0). No result means \<open>fatal\<close>.
\<close>

fun pick_idle_cores ::
  "'g plugins \<Rightarrow> job_resources \<Rightarrow> int \<Rightarrow> bool \<Rightarrow> (int \<times> int) list \<Rightarrow> bitstr \<Rightarrow> bitstr \<Rightarrow> int
     \<Rightarrow> (bitstr \<times> bitstr \<times> int \<times> bool) option" where
  "pick_idle_cores p jr job_node_inx use_all [] step_bm used_bm cpu_cnt =
     Some (step_bm, used_bm, cpu_cnt, False)"
| "pick_idle_cores p jr job_node_inx use_all ((core_inx, sock_inx) # rest) step_bm used_bm
       cpu_cnt =
     (let bit_offset = get_job_resources_offset p jr job_node_inx sock_inx core_inx in
        if bit_offset < 0 then None
        else if \<not> bit_test (core_bitmap jr) bit_offset
        then pick_idle_cores p jr job_node_inx use_all rest step_bm used_bm cpu_cnt
        else if \<not> use_all \<and> bit_test used_bm bit_offset
        then pick_idle_cores p jr job_node_inx use_all rest step_bm used_bm cpu_cnt
        else if c_int (cpu_cnt - 1) = 0
        then Some (bit_set step_bm bit_offset, bit_set used_bm bit_offset, 0, True)
        else pick_idle_cores p jr job_node_inx use_all rest (bit_set step_bm bit_offset)
               (bit_set used_bm bit_offset) (c_int (cpu_cnt - 1)))"

text \<open>The second pass, which over-subscribes cores: only the step's bitmap changes.\<close>

fun pick_busy_cores ::
  "'g plugins \<Rightarrow> job_resources \<Rightarrow> int \<Rightarrow> (int \<times> int) list \<Rightarrow> bitstr \<Rightarrow> int
     \<Rightarrow> bitstr option" where
  "pick_busy_cores p jr job_node_inx [] step_bm cpu_cnt = Some step_bm"
| "pick_busy_cores p jr job_node_inx ((core_inx, sock_inx) # rest) step_bm cpu_cnt =
     (let bit_offset = get_job_resources_offset p jr job_node_inx sock_inx core_inx in
        if bit_offset < 0 then None
        else if \<not> bit_test (core_bitmap jr) bit_offset
        then pick_busy_cores p jr job_node_inx rest step_bm cpu_cnt
        else if bit_test step_bm bit_offset
        then pick_busy_cores p jr job_node_inx rest step_bm cpu_cnt
        else if c_int (cpu_cnt - 1) = 0 then Some (bit_set step_bm bit_offset)
        else pick_busy_cores p jr job_node_inx rest (bit_set step_bm bit_offset)
               (c_int (cpu_cnt - 1)))"

text \<open>
  The two passes of \<open>_pick_step_cores\<close>, once \<open>use_all_cores\<close> and \<open>cpu_cnt\<close> are
  set: the step, the job's resources and the static \<open>last_core_inx\<close> after them. No
  result means \<open>fatal\<close>, or a division by zero in the second pass of a node without
  cores.
\<close>

definition pick_cores_passes ::
  "'g plugins \<Rightarrow> 'g step_record \<Rightarrow> job_resources \<Rightarrow> int \<Rightarrow> bool \<Rightarrow> u16 \<Rightarrow> u16 \<Rightarrow> int \<Rightarrow> int
     \<Rightarrow> ('g step_record \<times> job_resources \<times> int) option" where
  "pick_cores_passes p step_ptr jr job_node_inx use_all sockets cores cpu_cnt last_core_inx =
     (let step_bm = (case core_bitmap_job step_ptr of
                       None \<Rightarrow> bit_alloc (bit_size (core_bitmap jr))
                     | Some b \<Rightarrow> b)
      in
        case pick_idle_cores p jr job_node_inx use_all
               (core_sock_pairs [0..uint cores - 1] sockets) step_bm (core_bitmap_used jr)
               cpu_cnt of
          None \<Rightarrow> None
        | Some (step_bm1, used_bm1, cpu_cnt1, returned) \<Rightarrow>
            if returned \<or> use_all
            then Some (step_ptr \<lparr> core_bitmap_job := Some step_bm1 \<rparr>,
                       jr \<lparr> core_bitmap_used := used_bm1 \<rparr>, last_core_inx)
            else if cores = 0 then None
            else
              let lci = (last_core_inx + 1) smod uint cores in
                (case pick_busy_cores p jr job_node_inx
                        (core_sock_pairs
                           (map (\<lambda>i. (lci + i) smod uint cores) [0..uint cores - 1])
                           sockets)
                        step_bm1 cpu_cnt1 of
                   None \<Rightarrow> None
                 | Some step_bm2 \<Rightarrow>
                     Some (step_ptr \<lparr> core_bitmap_job := Some step_bm2 \<rparr>,
                           jr \<lparr> core_bitmap_used := used_bm1 \<rparr>, lci)))"

text \<open>
  \<open>_pick_step_cores\<close>: \<open>use_all_cores\<close> is set from the task count, before
  \<open>cpu_cnt\<close> is multiplied by \<open>cpus_per_task\<close>. No result also means that
  \<open>get_job_resources_cnt\<close> fails (\<open>fatal\<close>).
\<close>

definition pick_step_cores ::
  "'g plugins \<Rightarrow> 'g step_record \<Rightarrow> job_resources \<Rightarrow> int \<Rightarrow> u16 \<Rightarrow> int
     \<Rightarrow> ('g step_record \<times> job_resources \<times> int) option" where
  "pick_step_cores p step_ptr jr job_node_inx task_cnt last_core_inx =
     (case get_job_resources_cnt p jr job_node_inx of
        None \<Rightarrow> None
      | Some (sockets, cores) \<Rightarrow>
          pick_cores_passes p step_ptr jr job_node_inx (use_all_cores task_cnt cores sockets)
            sockets cores (step_cpu_cnt step_ptr task_cnt) last_core_inx)"

section \<open>Charging a step's processors and memory\<close>

text \<open>
  The state the loop of \<open>step_alloc_lps\<close> changes: the step, the job's resources, the
  job's generic resources and the static \<open>last_core_inx\<close> of \<open>_pick_step_cores\<close>.
\<close>

record 'g alloc_state =
  as_step :: "'g step_record"
  as_resrcs :: job_resources
  as_job_gres :: 'g
  as_last_core_inx :: int

text \<open>The body of the loop for one node of the step.\<close>

definition alloc_node ::
  "ctld \<Rightarrow> 'g plugins \<Rightarrow> u32 \<Rightarrow> slurm_step_layout \<Rightarrow> bool \<Rightarrow> int \<Rightarrow> int \<Rightarrow> 'g alloc_state
     \<Rightarrow> 'g alloc_state option" where
  "alloc_node c p jid lay pick job_node_inx step_node_inx s =
     (let step_ptr = as_step s; jr = as_resrcs s in
        if length (tasks lay) \<le> nat step_node_inx \<or> length (cpus_used jr) \<le> nat job_node_inx
        then None
        else
          let cpus_alloc = c_int (uint (tasks lay ! nat step_node_inx) *
                                  uint (cpus_per_task step_ptr));
              jr1 = jr \<lparr> cpus_used := (cpus_used jr)
                      [nat job_node_inx :=
                         word_of_int (uint (cpus_used jr ! nat job_node_inx) + cpus_alloc)] \<rparr>;
              (sg, jg) = gres_plugin_step_alloc p (gres_list step_ptr) (as_job_gres s)
                           job_node_inx cpus_alloc jid (step_id step_ptr);
              st1 = step_ptr \<lparr> gres_list := sg \<rparr>;
              jr2 = (if mem_per_cpu st1 \<noteq> 0 \<and> is_mem_resv c
                     then (case memory_used jr1 of
                             None \<Rightarrow> None
                           | Some mu \<Rightarrow>
                               if length mu \<le> nat job_node_inx then None
                               else Some (jr1 \<lparr> memory_used := Some (mu
                                      [nat job_node_inx := mu ! nat job_node_inx +
                                         mem_per_cpu st1 * word_of_int cpus_alloc]) \<rparr>))
                     else Some jr1)
          in
            (case jr2 of
               None \<Rightarrow> None
             | Some jr3 \<Rightarrow>
                 if pick then
                   (case pick_step_cores p st1 jr3 job_node_inx (tasks lay ! nat step_node_inx)
                           (as_last_core_inx s) of
                      None \<Rightarrow> None
                    | Some (st2, jr4, lci) \<Rightarrow>
                        Some \<lparr> as_step = st2, as_resrcs = jr4, as_job_gres = jg,
                               as_last_core_inx = lci \<rparr>)
                 else Some \<lparr> as_step = st1, as_resrcs = jr3, as_job_gres = jg,
                             as_last_core_inx = as_last_core_inx s \<rparr>))"

fun alloc_nodes ::
  "ctld \<Rightarrow> 'g plugins \<Rightarrow> u32 \<Rightarrow> slurm_step_layout \<Rightarrow> bool \<Rightarrow> int list \<Rightarrow> int \<Rightarrow> int
     \<Rightarrow> 'g alloc_state \<Rightarrow> 'g alloc_state option" where
  "alloc_nodes c p jid lay pick [] job_node_inx step_node_inx s = Some s"
| "alloc_nodes c p jid lay pick (i_node # rest) job_node_inx step_node_inx s =
     (if \<not> bit_test (node_bitmap (as_resrcs s)) i_node
      then alloc_nodes c p jid lay pick rest job_node_inx step_node_inx s
      else if \<not> bit_test (step_node_bitmap (as_step s)) i_node
      then alloc_nodes c p jid lay pick rest (job_node_inx + 1) step_node_inx s
      else if (word_of_int (job_node_inx + 1) :: u32) \<ge> nhosts (as_resrcs s) then None
      else
        (case alloc_node c p jid lay pick (job_node_inx + 1) (step_node_inx + 1) s of
           None \<Rightarrow> None
         | Some s1 \<Rightarrow>
             if (word_of_int (step_node_inx + 1) :: u32) = node_cnt lay - 1 then Some s1
             else alloc_nodes c p jid lay pick rest (job_node_inx + 1) (step_node_inx + 1) s1))"

text \<open>
  \<open>step_alloc_lps\<close> for a step of the job \<open>job_ptr\<close>, which the step record points
  to: the state after the charge. No result means \<open>fatal\<close> or an access outside an
  array.
\<close>

definition step_alloc_lps ::
  "ctld \<Rightarrow> 'g plugins \<Rightarrow> 'g job_record \<Rightarrow> 'g step_record \<Rightarrow> int \<Rightarrow> 'g alloc_state option" where
  "step_alloc_lps c p job_ptr step_ptr last_core_inx =
     (let jr = job_resrcs job_ptr;
          s0 = \<lparr> as_step = step_ptr, as_resrcs = jr, as_job_gres = job_gres_list job_ptr,
                 as_last_core_inx = last_core_inx \<rparr>
      in
        case step_layout step_ptr of
          None \<Rightarrow> Some s0
        | Some lay \<Rightarrow>
            let i_first = bit_ffs (node_bitmap jr);
                i_last = bit_fls (node_bitmap jr)
            in
              if i_first = -1 then Some s0
              else
                let (st1, pick) =
                      (if have_bg c then (step_ptr, False)
                       else if core_bitmap_job step_ptr \<noteq> None then (step_ptr, False)
                       else if exclusive step_ptr = 0 \<or> cpu_count step_ptr = total_cpus job_ptr
                       then (step_ptr \<lparr> core_bitmap_job := Some (core_bitmap jr) \<rparr>, False)
                       else (step_ptr, True));
                    st2 = (if mem_per_cpu st1 \<noteq> 0 \<and> is_mem_resv c \<and>
                              (memory_allocated jr = None \<or> memory_used jr = None)
                           then st1 \<lparr> mem_per_cpu := 0 \<rparr> else st1)
                in alloc_nodes c p (job_id job_ptr) lay pick [i_first..i_last] (-1) (-1)
                     (s0 \<lparr> as_step := st2 \<rparr>))"

section \<open>Picking nodes\<close>

record job_step_create_request_msg =
  spec_ckpt_interval :: u16
  spec_ckpt_dir :: "string option"
  spec_cpu_count :: u32
  spec_exclusive :: u16
  spec_gres :: "string option"
  spec_host :: "string option"
  spec_immediate :: u16
  spec_job_id :: u32
  spec_mem_per_cpu :: u32
  spec_min_nodes :: u32
  spec_max_nodes :: u32
  spec_name :: "string option"
  spec_network :: "string option"
  spec_no_kill :: u8
  spec_node_list :: "string option"
  spec_num_tasks :: u32
  spec_overcommit :: u8
  spec_plane_size :: u16
  spec_port :: u16
  spec_relative :: u16
  spec_resv_port_cnt :: u16
  spec_task_dist :: task_dist_states
  spec_time_limit :: u32
  spec_user_id :: u32

text \<open>
  An array element: nothing when the index is outside the array, where the C program
  has no defined behaviour.
\<close>

definition c_nth :: "'a list \<Rightarrow> int \<Rightarrow> 'a option" where
  "c_nth xs i = (if 0 \<le> i \<and> i < int (length xs) then Some (xs ! nat i) else None)"

definition c_upd :: "'a list \<Rightarrow> int \<Rightarrow> 'a \<Rightarrow> 'a list option" where
  "c_upd xs i v = (if 0 \<le> i \<and> i < int (length xs) then Some (xs [nat i := v]) else None)"

text \<open>
  \<open>MIN (a, b)\<close> for an \<open>int a\<close> and a \<open>uint32_t b\<close>, stored in an \<open>int\<close>: the
  comparison is unsigned.
\<close>

definition min_int_u32 :: "int \<Rightarrow> u32 \<Rightarrow> int" where
  "min_int_u32 a b = (if (word_of_int a :: u32) < b then a else c_int (uint b))"

text \<open>
  The header shared by the loops over a job's nodes: the indices \<open>i\<close> of the bits of
  \<open>job_resrcs->node_bitmap\<close> from its first to its last, each with \<open>node_inx\<close>, its
  position in the job's arrays.
\<close>

definition job_nodes :: "job_resources \<Rightarrow> (int \<times> int) list" where
  "job_nodes jr =
     (let idx = filter (bit_test (node_bitmap jr))
                  [bit_ffs (node_bitmap jr)..bit_fls (node_bitmap jr)]
      in zip idx (map int [0..<length idx]))"

text \<open>The result of \<open>_pick_step_nodes\<close>: the bitmap or NULL, \<open>*return_code\<close>, and the request.\<close>

type_synonym pick_result = "bitstr option \<times> rc \<times> job_step_create_request_msg"

subsection \<open>The first step of a job\<close>

text \<open>
  The loop over the node table when \<open>next_step_id\<close> is 0: whether a node of the job is
  powered down or does not respond.
\<close>

definition job_node_not_ready :: "ctld \<Rightarrow> bitstr \<Rightarrow> bool" where
  "job_node_not_ready c bm =
     list_ex (\<lambda>i. bit_test bm i \<and>
                 (node_power_save (node_record_table c ! nat i) \<or>
                  node_no_respond (node_record_table c ! nat i)))
       [bit_ffs bm..node_record_count c - 1]"

subsection \<open>Exclusive mode\<close>

text \<open>
  The tasks a node of the job can take now (\<open>avail_tasks\<close>) and at all
  (\<open>total_tasks\<close>), as the loop of the exclusive mode computes them for the node at
  position \<open>node_inx\<close>; \<open>cpt\<close> is the parameter \<open>cpus_per_task\<close>.
\<close>

definition excl_node_tasks ::
  "'g plugins \<Rightarrow> 'g job_record \<Rightarrow> job_step_create_request_msg \<Rightarrow> 'g option \<Rightarrow> int \<Rightarrow> int
     \<Rightarrow> (int \<times> int) option" where
  "excl_node_tasks p job_ptr step_spec step_gres_list cpt node_inx =
     do {
       let jr = job_resrcs job_ptr;
       cpu \<leftarrow> c_nth (cpus jr) node_inx;
       used \<leftarrow> c_nth (cpus_used jr) node_inx;
       let avail_cpus = uint cpu - uint used;
       let total_cpus = uint cpu;
       let avail_tasks = (if cpt > 0 then avail_cpus sdiv cpt
                          else c_int (uint (spec_num_tasks step_spec)));
       let total_tasks = (if cpt > 0 then total_cpus sdiv cpt
                          else c_int (uint (spec_num_tasks step_spec)));
       (avail_tasks, total_tasks) \<leftarrow>
         (if spec_mem_per_cpu step_spec \<noteq> 0 then
            do {
              mem_alloc \<leftarrow> memory_allocated jr;
              mem_used \<leftarrow> memory_used jr;
              total_mem \<leftarrow> c_nth mem_alloc node_inx;
              used_mem \<leftarrow> c_nth mem_used node_inx;
              let avail_mem = total_mem - used_mem;
              let task_cnt = c_int (uint (avail_mem div spec_mem_per_cpu step_spec));
              let task_cnt = (if cpt > 0 then task_cnt sdiv cpt
                              else task_cnt);
              let avail_tasks = min avail_tasks task_cnt;
              let task_cnt = c_int (uint (total_mem div spec_mem_per_cpu step_spec));
              let task_cnt = (if cpt > 0 then task_cnt sdiv cpt
                              else task_cnt);
              Some (avail_tasks, min total_tasks task_cnt)
            }
          else Some (avail_tasks, total_tasks));
       let gres_cnt = gres_plugin_step_test p step_gres_list (job_gres_list job_ptr) node_inx
                        False (job_id job_ptr) NO_VAL;
       let gres_cnt = (if cpt > 0 then gres_cnt div word_of_int cpt
                       else gres_cnt);
       let avail_tasks = min_int_u32 avail_tasks gres_cnt;
       let gres_cnt = gres_plugin_step_test p step_gres_list (job_gres_list job_ptr) node_inx
                        True (job_id job_ptr) NO_VAL;
       let gres_cnt = (if cpt > 0 then gres_cnt div word_of_int cpt
                       else gres_cnt);
       Some (avail_tasks, min_int_u32 total_tasks gres_cnt)
     }"

record excl_state =
  ex_nodes_avail :: bitstr
  ex_nodes_picked_cnt :: u32
  ex_tasks_picked_cnt :: u32
  ex_total_task_cnt :: u32

text \<open>What the loop does with the node \<open>i\<close> once its two task counts are known.\<close>

definition excl_node ::
  "job_step_create_request_msg \<Rightarrow> bitstr option \<Rightarrow> int \<Rightarrow> int \<Rightarrow> int \<Rightarrow> excl_state
     \<Rightarrow> excl_state" where
  "excl_node step_spec selected_nodes i avail_tasks total_tasks s =
     (if spec_max_nodes step_spec \<noteq> 0 \<and> ex_nodes_picked_cnt s \<ge> spec_max_nodes step_spec
      then s \<lparr> ex_nodes_avail := bit_clear (ex_nodes_avail s) i \<rparr>
      else if avail_tasks \<le> 0 \<or>
              (selected_nodes = None \<and>
               ex_nodes_picked_cnt s \<ge> spec_min_nodes step_spec \<and>
               ex_tasks_picked_cnt s > 0 \<and>
               ex_tasks_picked_cnt s \<ge> spec_num_tasks step_spec)
      then s \<lparr> ex_nodes_avail := bit_clear (ex_nodes_avail s) i,
               ex_total_task_cnt := ex_total_task_cnt s + word_of_int total_tasks \<rparr>
      else s \<lparr> ex_nodes_picked_cnt := ex_nodes_picked_cnt s + 1,
               ex_tasks_picked_cnt := ex_tasks_picked_cnt s + word_of_int avail_tasks,
               ex_total_task_cnt := ex_total_task_cnt s + word_of_int total_tasks \<rparr>)"

fun excl_nodes ::
  "'g plugins \<Rightarrow> 'g job_record \<Rightarrow> job_step_create_request_msg \<Rightarrow> 'g option \<Rightarrow> int
     \<Rightarrow> bitstr option \<Rightarrow> (int \<times> int) list \<Rightarrow> excl_state \<Rightarrow> excl_state option" where
  "excl_nodes p job_ptr step_spec step_gres_list cpt selected_nodes [] s = Some s"
| "excl_nodes p job_ptr step_spec step_gres_list cpt selected_nodes
       ((i, node_inx) # rest) s =
     (if \<not> bit_test (ex_nodes_avail s) i
      then excl_nodes p job_ptr step_spec step_gres_list cpt selected_nodes rest s
      else
        (case excl_node_tasks p job_ptr step_spec step_gres_list cpt node_inx of
           None \<Rightarrow> None
         | Some (avail_tasks, total_tasks) \<Rightarrow>
             excl_nodes p job_ptr step_spec step_gres_list cpt selected_nodes rest
               (excl_node step_spec selected_nodes i avail_tasks total_tasks s)))"

text \<open>
  The nodes named in the request, in exclusive mode: an error (\<open>goto cleanup\<close>) when the
  list does not parse or names a node outside the job or a node that is down.
\<close>

definition excl_selected_nodes ::
  "ctld \<Rightarrow> 'g plugins \<Rightarrow> bitstr \<Rightarrow> job_step_create_request_msg \<Rightarrow> unit + bitstr option" where
  "excl_selected_nodes c p job_bitmap step_spec =
     (case spec_node_list step_spec of
        None \<Rightarrow> Inr None
      | Some nl \<Rightarrow>
          (case node_name2bitmap p nl of
             None \<Rightarrow> Inl ()
           | Some sel \<Rightarrow>
               if \<not> bit_super_set sel job_bitmap then Inl ()
               else if \<not> bit_super_set sel (up_node_bitmap c) then Inl ()
               else Inr (Some sel)))"

text \<open>
  The exclusive mode of \<open>_pick_step_nodes\<close>, from \<open>if (step_spec->exclusive)\<close> to its
  return; \<open>return_code\<close> is \<open>SLURM_SUCCESS\<close> on entry.
\<close>

definition pick_exclusive ::
  "ctld \<Rightarrow> 'g plugins \<Rightarrow> 'g job_record \<Rightarrow> bitstr \<Rightarrow> job_step_create_request_msg \<Rightarrow> 'g option
     \<Rightarrow> int \<Rightarrow> bitstr \<Rightarrow> pick_result option" where
  "pick_exclusive c p job_ptr job_bitmap step_spec step_gres_list cpt nodes_avail =
     (case excl_selected_nodes c p job_bitmap step_spec of
        Inl _ \<Rightarrow> Some (None, ESLURM_REQUESTED_NODE_CONFIG_UNAVAILABLE, step_spec)
      | Inr selected_nodes \<Rightarrow>
          (case excl_nodes p job_ptr step_spec step_gres_list cpt selected_nodes
                  (job_nodes (job_resrcs job_ptr))
                  \<lparr> ex_nodes_avail = nodes_avail, ex_nodes_picked_cnt = 0,
                    ex_tasks_picked_cnt = 0, ex_total_task_cnt = 0 \<rparr> of
             None \<Rightarrow> None
           | Some s \<Rightarrow>
               let tasks_picked_cnt =
                     (case selected_nodes of
                        None \<Rightarrow> ex_tasks_picked_cnt s
                      | Some sel \<Rightarrow>
                          if \<not> bit_equal sel (ex_nodes_avail s) then 0
                          else ex_tasks_picked_cnt s)
               in
                 if tasks_picked_cnt \<ge> spec_num_tasks step_spec
                 then Some (Some (ex_nodes_avail s), SLURM_SUCCESS, step_spec)
                 else if ex_total_task_cnt s \<ge> spec_num_tasks step_spec
                 then Some (None, ESLURM_NODES_BUSY, step_spec)
                 else Some (None, ESLURM_REQUESTED_NODE_CONFIG_UNAVAILABLE, step_spec)))"

subsection \<open>Processors usable under memory and generic-resource limits\<close>

record usable_state =
  us_nodes_avail :: bitstr
  us_usable_cpu_cnt :: "u32 list"
  us_fail_mode :: rc
  us_mem_blocked_nodes :: int
  us_mem_blocked_cpus :: int

text \<open>
  The first part of the body of the loop that fills \<open>usable_cpu_cnt\<close>, for an
  available node \<open>i\<close> at position \<open>node_inx\<close> of the job: \<open>total_cpus\<close>,
  \<open>avail_cpus\<close>, the array and \<open>fail_mode\<close>.
\<close>

definition usable_cpus ::
  "'g plugins \<Rightarrow> 'g job_record \<Rightarrow> job_step_create_request_msg \<Rightarrow> 'g option \<Rightarrow> int \<Rightarrow> int
     \<Rightarrow> usable_state \<Rightarrow> (u32 \<times> u32 \<times> u32 list \<times> rc) option" where
  "usable_cpus p job_ptr step_spec step_gres_list i node_inx s =
     do {
       let jr = job_resrcs job_ptr;
       cpu \<leftarrow> c_nth (cpus jr) node_inx;
       let total_cpus = (ucast cpu :: u32);
       let avail_cpus = total_cpus;
       usable \<leftarrow> c_upd (us_usable_cpu_cnt s) i avail_cpus;
       let fail_mode = us_fail_mode s;
       (total_cpus, avail_cpus, usable, fail_mode) \<leftarrow>
         (if spec_mem_per_cpu step_spec \<noteq> 0 then
            do {
              mem_alloc \<leftarrow> memory_allocated jr;
              mem_used \<leftarrow> memory_used jr;
              tmp_mem \<leftarrow> c_nth mem_alloc node_inx;
              used_mem \<leftarrow> c_nth mem_used node_inx;
              let tmp_cpus = tmp_mem div spec_mem_per_cpu step_spec;
              let total_cpus = min total_cpus tmp_cpus;
              let tmp_mem = tmp_mem - used_mem;
              let tmp_cpus = tmp_mem div spec_mem_per_cpu step_spec;
              if tmp_cpus < avail_cpus then
                do {
                  usable \<leftarrow> c_upd usable i tmp_cpus;
                  Some (total_cpus, tmp_cpus, usable, ESLURM_INVALID_TASK_MEMORY)
                }
              else Some (total_cpus, avail_cpus, usable, fail_mode)
            }
          else Some (total_cpus, avail_cpus, usable, fail_mode));
       (if spec_gres step_spec \<noteq> None then
          do {
            let tmp_cpus = gres_plugin_step_test p step_gres_list (job_gres_list job_ptr)
                             node_inx True (job_id job_ptr) NO_VAL;
            let total_cpus = min total_cpus tmp_cpus;
            let tmp_cpus = gres_plugin_step_test p step_gres_list (job_gres_list job_ptr)
                             node_inx False (job_id job_ptr) NO_VAL;
            if tmp_cpus < avail_cpus then
              do {
                usable \<leftarrow> c_upd usable i tmp_cpus;
                Some (total_cpus, tmp_cpus, usable, ESLURM_INVALID_GRES)
              }
            else Some (total_cpus, avail_cpus, usable, fail_mode)
          }
        else Some (total_cpus, avail_cpus, usable, fail_mode))
     }"

text \<open>
  The body of the loop: the early return of \<open>_pick_step_nodes\<close>, or the next state.
\<close>

definition usable_node ::
  "'g plugins \<Rightarrow> 'g job_record \<Rightarrow> job_step_create_request_msg \<Rightarrow> 'g option \<Rightarrow> int \<Rightarrow> int \<Rightarrow> int
     \<Rightarrow> usable_state \<Rightarrow> (pick_result + usable_state) option" where
  "usable_node p job_ptr step_spec step_gres_list cpt i node_inx s =
     (case usable_cpus p job_ptr step_spec step_gres_list i node_inx s of
        None \<Rightarrow> None
      | Some (tot_cpus, avail_cpus, usable, fail_mode) \<Rightarrow>
          let avail_tasks = (if cpt > 0 then avail_cpus div word_of_int cpt else avail_cpus);
              total_tasks = (if cpt > 0 then tot_cpus div word_of_int cpt else tot_cpus);
              s1 = s \<lparr> us_usable_cpu_cnt := usable, us_fail_mode := fail_mode \<rparr>
          in
            if avail_tasks = 0 then
              (if spec_min_nodes step_spec = INFINITE
               then Some (Inl (None, if total_tasks = 0 then fail_mode else ESLURM_NODES_BUSY,
                               step_spec))
               else Some (Inr (s1 \<lparr> us_nodes_avail := bit_clear (us_nodes_avail s1) i,
                                    us_mem_blocked_nodes := c_int (us_mem_blocked_nodes s1 + 1),
                                    us_mem_blocked_cpus :=
                                      c_int (us_mem_blocked_cpus s1 +
                                             uint (tot_cpus - avail_cpus)) \<rparr>)))
            else Some (Inr s1))"

fun usable_nodes ::
  "'g plugins \<Rightarrow> 'g job_record \<Rightarrow> job_step_create_request_msg \<Rightarrow> 'g option \<Rightarrow> int
     \<Rightarrow> (int \<times> int) list \<Rightarrow> usable_state \<Rightarrow> (pick_result + usable_state) option" where
  "usable_nodes p job_ptr step_spec step_gres_list cpt [] s = Some (Inr s)"
| "usable_nodes p job_ptr step_spec step_gres_list cpt ((i, node_inx) # rest) s =
     (if \<not> bit_test (us_nodes_avail s) i
      then usable_nodes p job_ptr step_spec step_gres_list cpt rest s
      else
        (case usable_node p job_ptr step_spec step_gres_list cpt i node_inx s of
           None \<Rightarrow> None
         | Some (Inl r) \<Rightarrow> Some (Inl r)
         | Some (Inr s1) \<Rightarrow> usable_nodes p job_ptr step_spec step_gres_list cpt rest s1))"

subsection \<open>Counting processors\<close>

text \<open>
  \<open>_count_cpus\<close>, for a job whose \<open>job_resrcs\<close>, \<open>cpus\<close> and node bitmap are set
  (\<open>_pick_step_nodes\<close> asserts it, so the other branch of the source is not reached):
  the loop over the node table, with \<open>node_inx\<close> the number of the job's nodes seen
  before. No result: the bitmap is NULL where a bit of it is read, or an index is outside
  an array.
\<close>

fun count_cpus_from ::
  "job_resources \<Rightarrow> bitstr \<Rightarrow> bitstr option \<Rightarrow> u32 list option \<Rightarrow> int list \<Rightarrow> int \<Rightarrow> int
     \<Rightarrow> int option" where
  "count_cpus_from jr job_bitmap bm usable [] node_inx acc = Some acc"
| "count_cpus_from jr job_bitmap bm usable (i # rest) node_inx acc =
     (if \<not> bit_test (node_bitmap jr) i
      then count_cpus_from jr job_bitmap bm usable rest node_inx acc
      else if \<not> bit_test job_bitmap i
      then count_cpus_from jr job_bitmap bm usable rest (node_inx + 1) acc
      else
        (case bm of
           None \<Rightarrow> None
         | Some b \<Rightarrow>
             if \<not> bit_test b i
             then count_cpus_from jr job_bitmap bm usable rest (node_inx + 1) acc
             else
               (case (case usable of
                        Some u \<Rightarrow> map_option uint (c_nth u i)
                      | None \<Rightarrow> map_option uint (c_nth (cpus jr) node_inx)) of
                  None \<Rightarrow> None
                | Some n \<Rightarrow>
                    count_cpus_from jr job_bitmap bm usable rest (node_inx + 1)
                      (c_int (acc + n)))))"

definition count_cpus ::
  "ctld \<Rightarrow> 'g job_record \<Rightarrow> bitstr \<Rightarrow> bitstr option \<Rightarrow> u32 list option \<Rightarrow> int option" where
  "count_cpus c job_ptr job_bitmap bm usable =
     count_cpus_from (job_resrcs job_ptr) job_bitmap bm usable [0..node_record_count c - 1] 0 0"

subsection \<open>The local variables of the general case\<close>

record pick_locals =
  pl_spec :: job_step_create_request_msg
  pl_nodes_avail :: bitstr
  pl_nodes_idle :: "bitstr option"
  pl_nodes_picked :: "bitstr option"
  pl_usable_cpu_cnt :: "u32 list option"
  pl_mem_blocked_nodes :: int
  pl_mem_blocked_cpus :: int
  pl_return_code :: rc
  pl_nodes_picked_cnt :: int
  pl_cpus_picked_cnt :: int

text \<open>The label \<open>cleanup\<close>.\<close>

definition cleanup :: "pick_locals \<Rightarrow> pick_result" where
  "cleanup l =
     (None,
      if pl_return_code l = SLURM_SUCCESS then ESLURM_REQUESTED_NODE_CONFIG_UNAVAILABLE
      else pl_return_code l,
      pl_spec l)"

text \<open>The nodes named in the request (\<open>if (step_spec->node_list)\<close> and its else branch).\<close>

definition pick_node_list ::
  "ctld \<Rightarrow> 'g plugins \<Rightarrow> bitstr \<Rightarrow> pick_locals \<Rightarrow> pick_result + pick_locals" where
  "pick_node_list c p job_bitmap l =
     (let step_spec = pl_spec l; nodes_avail = pl_nodes_avail l in
        case spec_node_list step_spec of
          None \<Rightarrow> Inr (l \<lparr> pl_nodes_picked := Some (bit_alloc (bit_size nodes_avail)) \<rparr>)
        | Some nl \<Rightarrow>
            (case node_name2bitmap p nl of
               None \<Rightarrow> Inl (cleanup l)
             | Some sel \<Rightarrow>
                 if \<not> bit_super_set sel job_bitmap then Inl (cleanup l)
                 else if \<not> bit_super_set sel nodes_avail
                 then Inl (cleanup (l \<lparr> pl_return_code := ESLURM_INVALID_TASK_MEMORY \<rparr>))
                 else
                   let (spec1, selected_nodes) =
                         (if spec_task_dist step_spec = SLURM_DIST_ARBITRARY then
                            (if switch_type c = ''switch/elan''
                             then (step_spec \<lparr> spec_node_list := None,
                                               spec_task_dist := SLURM_DIST_BLOCK,
                                               spec_min_nodes :=
                                                 word_of_int (bit_set_count nodes_avail) \<rparr>,
                                   None)
                             else (step_spec \<lparr> spec_min_nodes :=
                                                 word_of_int (bit_set_count sel) \<rparr>,
                                   Some sel))
                          else (step_spec, Some sel));
                       l1 = l \<lparr> pl_spec := spec1 \<rparr>
                   in
                     (case selected_nodes of
                        None \<Rightarrow> Inr l1
                      | Some sel \<Rightarrow>
                          let node_cnt = (if spec_min_nodes spec1 \<noteq> 0 \<or> spec_max_nodes spec1 \<noteq> 0
                                          then bit_set_count sel else 0)
                          in
                            if spec_max_nodes spec1 \<noteq> 0 \<and>
                               (word_of_int node_cnt :: u32) > spec_max_nodes spec1
                            then Inl (cleanup l1)
                            else if spec_min_nodes spec1 \<noteq> 0 \<and>
                                    (word_of_int node_cnt :: u32) > spec_min_nodes spec1
                            then Inr (l1 \<lparr> pl_nodes_picked := Some (bit_alloc (bit_size nodes_avail)),
                                            pl_nodes_avail := sel \<rparr>)
                            else Inr (l1 \<lparr> pl_nodes_picked := Some sel,
                                            pl_nodes_avail := bit_and nodes_avail (bit_not sel) \<rparr>))))"

text \<open>
  The offset \<open>relative\<close> into the job's nodes, or else the nodes no other step of the
  job uses (\<open>nodes_idle\<close>).
\<close>

definition pick_relative ::
  "'g job_record \<Rightarrow> pick_locals \<Rightarrow> pick_result + pick_locals" where
  "pick_relative job_ptr l =
     (if spec_relative (pl_spec l) \<noteq> NO_VAL16 then
        (case bit_pick_cnt (pl_nodes_avail l) (uint (spec_relative (pl_spec l))) of
           None \<Rightarrow> Inl (cleanup l)
         | Some relative_nodes \<Rightarrow>
             Inr (l \<lparr> pl_nodes_avail := bit_and (pl_nodes_avail l) (bit_not relative_nodes) \<rparr>))
      else
        Inr (l \<lparr> pl_nodes_idle :=
               Some (bit_and
                       (bit_not (fold (\<lambda>step_p b. bit_or b (step_node_bitmap step_p))
                                   (step_list job_ptr) (bit_alloc (bit_size (pl_nodes_avail l)))))
                       (pl_nodes_avail l)) \<rparr>))"

text \<open>
  A processor count on a job whose nodes all have the same number of processors becomes
  a node count. No result: the division by a zero \<open>cpu_array_value[0]\<close>.
\<close>

definition pick_cpus_to_nodes ::
  "'g job_record \<Rightarrow> pick_locals \<Rightarrow> (pick_result + pick_locals) option" where
  "pick_cpus_to_nodes job_ptr l =
     (let step_spec = pl_spec l; jr = job_resrcs job_ptr in
        if spec_cpu_count step_spec \<noteq> 0 \<and> cpu_array_cnt jr = 1 \<and> cpu_array_value jr \<noteq> None
        then
          (case c_nth (the (cpu_array_value jr)) 0 of
             None \<Rightarrow> None
           | Some v \<Rightarrow>
               if v = 0 then None
               else
                 let i = c_int (uint ((spec_cpu_count step_spec + word_of_int (uint v - 1))
                                        div ucast v));
                     spec1 = step_spec \<lparr> spec_min_nodes :=
                               (if (word_of_int i :: u32) > spec_min_nodes step_spec
                                then word_of_int i else spec_min_nodes step_spec) \<rparr>;
                     l1 = l \<lparr> pl_spec := spec1 \<rparr>
                 in
                   if spec_max_nodes spec1 \<noteq> 0 \<and> spec_max_nodes spec1 < spec_min_nodes spec1
                   then Some (Inl (cleanup (l1 \<lparr> pl_return_code :=
                                                    ESLURM_TOO_MANY_REQUESTED_CPUS \<rparr>)))
                   else Some (Inr l1))
        else Some (Inr l))"

text \<open>
  \<open>if (step_spec->min_nodes)\<close>: nodes are added from the idle nodes, then from the
  available ones, up to the minimum. No result: a bitmap that is NULL is read.
\<close>

definition pick_min_nodes ::
  "ctld \<Rightarrow> bitstr \<Rightarrow> pick_locals \<Rightarrow> (pick_result + pick_locals) option" where
  "pick_min_nodes c job_bitmap l =
     (let min_nodes = spec_min_nodes (pl_spec l) in
        if min_nodes = 0 then Some (Inr l)
        else
          (case pl_nodes_picked l of
             None \<Rightarrow> None
           | Some picked \<Rightarrow>
               let l1 = l \<lparr> pl_nodes_picked_cnt := bit_set_count picked \<rparr>;
                   from_idle =
                     (case pl_nodes_idle l1 of
                        None \<Rightarrow> Inr l1
                      | Some idle \<Rightarrow>
                          if (word_of_int (bit_set_count idle) :: u32) \<ge> min_nodes \<and>
                             min_nodes > word_of_int (pl_nodes_picked_cnt l1)
                          then
                            (case bit_pick_cnt idle
                                    (c_int (uint (min_nodes -
                                                  word_of_int (pl_nodes_picked_cnt l1)))) of
                               None \<Rightarrow> Inl (cleanup l1)
                             | Some node_tmp \<Rightarrow>
                                 Inr (l1 \<lparr> pl_nodes_picked := Some (bit_or picked node_tmp),
                                           pl_nodes_idle := Some (bit_and idle (bit_not node_tmp)),
                                           pl_nodes_avail :=
                                             bit_and (pl_nodes_avail l1) (bit_not node_tmp),
                                           pl_nodes_picked_cnt := c_int (uint min_nodes) \<rparr>))
                          else Inr l1)
               in
                 (case from_idle of
                    Inl r \<Rightarrow> Some (Inl r)
                  | Inr l2 \<Rightarrow>
                      if min_nodes > word_of_int (pl_nodes_picked_cnt l2) then
                        (case bit_pick_cnt (pl_nodes_avail l2)
                                (c_int (uint (min_nodes - word_of_int (pl_nodes_picked_cnt l2)))) of
                           None \<Rightarrow>
                             if min_nodes \<le> word_of_int
                                  (c_int (c_int (bit_set_count (pl_nodes_avail l2) +
                                                 pl_nodes_picked_cnt l2) +
                                          pl_mem_blocked_nodes l2))
                             then Some (Inl (cleanup (l2 \<lparr> pl_return_code := ESLURM_NODES_BUSY \<rparr>)))
                             else if \<not> bit_super_set job_bitmap (up_node_bitmap c)
                             then Some (Inl (cleanup (l2 \<lparr> pl_return_code :=
                                                             ESLURM_NODE_NOT_AVAIL \<rparr>)))
                             else Some (Inl (cleanup l2))
                         | Some node_tmp \<Rightarrow>
                             Some (Inr (l2 \<lparr> pl_nodes_picked :=
                                              Some (bit_or (the (pl_nodes_picked l2)) node_tmp),
                                            pl_nodes_avail :=
                                              bit_and (pl_nodes_avail l2) (bit_not node_tmp),
                                            pl_nodes_picked_cnt := c_int (uint min_nodes) \<rparr>)))
                      else Some (Inr l2))))"

subsection \<open>Adding nodes until the processor count is reached\<close>

lemma length_pick_first: "length (pick_first b n) = length b"
  by (induction b arbitrary: n) auto

lemma bit_and_not_zip:
  "length t = length b \<Longrightarrow> bit_and b (bit_not t) = map (\<lambda>(x, y). x \<and> \<not> y) (zip b t)"
  by (auto simp: bit_and_def bit_not_def bit_test_def intro!: nth_equalityI)

lemma count_pick_first_0:
  "length (filter (\<lambda>x. x) (map (\<lambda>(x, y). x \<and> \<not> y) (zip b (pick_first b 0))))
     = length (filter (\<lambda>x. x) b)"
  by (induction b) (auto simp del: length_filter_map)

lemma count_pick_first_1:
  "True \<in> set b \<Longrightarrow>
   Suc (length (filter (\<lambda>x. x) (map (\<lambda>(x, y). x \<and> \<not> y) (zip b (pick_first b (Suc 0))))))
     = length (filter (\<lambda>x. x) b)"
proof (induction b)
  case Nil
  then show ?case by simp
next
  case (Cons x xs)
  show ?case
  proof (cases x)
    case True
    then show ?thesis by (simp add: count_pick_first_0 del: length_filter_map)
  next
    case False
    with Cons show ?thesis by (simp del: length_filter_map)
  qed
qed

lemma bit_pick_cnt_1_less:
  assumes "bit_pick_cnt b 1 = Some t"
  shows "bit_set_count (bit_and b (bit_not t)) < bit_set_count b"
proof -
  from assms have t: "t = pick_first b (Suc 0)" and c: "1 \<le> bit_set_count b"
    by (auto simp: bit_pick_cnt_def split: if_splits)
  from c have "filter (\<lambda>x. x) b \<noteq> []"
    by (auto simp: bit_set_count_def)
  then have "True \<in> set b"
    by (auto simp: filter_empty_conv)
  from count_pick_first_1 [OF this] show ?thesis
    by (simp add: t bit_and_not_zip length_pick_first bit_set_count_def
             del: length_filter_map)
qed

text \<open>
  One turn of the loop \<open>while (step_spec->cpu_count > cpus_picked_cnt)\<close>: \<open>Inl\<close>
  when the loop is left, \<open>Inr\<close> when it goes on.
\<close>

definition add_node ::
  "ctld \<Rightarrow> 'g job_record \<Rightarrow> bitstr \<Rightarrow> pick_locals \<Rightarrow> (pick_locals + pick_locals) option" where
  "add_node c job_ptr job_bitmap l =
     (if \<not> spec_cpu_count (pl_spec l) > word_of_int (pl_cpus_picked_cnt l) then Some (Inl l)
      else
        (case bit_pick_cnt (pl_nodes_avail l) 1 of
           None \<Rightarrow> Some (Inl l)
         | Some node_tmp \<Rightarrow>
             (case count_cpus c job_ptr job_bitmap (Some node_tmp) (pl_usable_cpu_cnt l) of
                None \<Rightarrow> None
              | Some cpu_cnt \<Rightarrow>
                  if cpu_cnt = 0
                  then Some (Inr (l \<lparr> pl_nodes_avail :=
                                       bit_and (pl_nodes_avail l) (bit_not node_tmp) \<rparr>))
                  else
                    (case pl_nodes_picked l of
                       None \<Rightarrow> None
                     | Some picked \<Rightarrow>
                         let cnt = c_int (pl_nodes_picked_cnt l + 1);
                             l1 = l \<lparr> pl_nodes_picked := Some (bit_or picked node_tmp),
                                     pl_nodes_avail :=
                                       bit_and (pl_nodes_avail l) (bit_not node_tmp),
                                     pl_nodes_picked_cnt := cnt,
                                     pl_spec :=
                                       (if spec_min_nodes (pl_spec l) \<noteq> 0
                                        then (pl_spec l) \<lparr> spec_min_nodes := word_of_int cnt \<rparr>
                                        else pl_spec l),
                                     pl_cpus_picked_cnt := c_int (pl_cpus_picked_cnt l + cpu_cnt) \<rparr>
                         in
                           if spec_max_nodes (pl_spec l1) \<noteq> 0 \<and>
                              (word_of_int cnt :: u32) \<ge> spec_max_nodes (pl_spec l1)
                           then Some (Inl l1)
                           else Some (Inr l1)))))"

lemma add_node_less:
  assumes "add_node c job_ptr job_bitmap l = Some (Inr l1)"
  shows "bit_set_count (pl_nodes_avail l1) < bit_set_count (pl_nodes_avail l)"
proof -
  from assms obtain node_tmp where
    "bit_pick_cnt (pl_nodes_avail l) 1 = Some node_tmp"
    "pl_nodes_avail l1 = bit_and (pl_nodes_avail l) (bit_not node_tmp)"
    unfolding add_node_def Let_def
    by (auto split: if_splits option.splits)
  then show ?thesis
    using bit_pick_cnt_1_less by simp
qed

text \<open>
  The loop. Every turn that goes on has taken the first available node out of
  \<open>nodes_avail\<close>, so the loop ends.
\<close>

function add_nodes ::
  "ctld \<Rightarrow> 'g job_record \<Rightarrow> bitstr \<Rightarrow> pick_locals \<Rightarrow> pick_locals option" where
  "add_nodes c job_ptr job_bitmap l =
     (case add_node c job_ptr job_bitmap l of
        None \<Rightarrow> None
      | Some (Inl l1) \<Rightarrow> Some l1
      | Some (Inr l1) \<Rightarrow> add_nodes c job_ptr job_bitmap l1)"
  by pat_completeness auto

termination
proof (relation "measure (\<lambda>(c, job_ptr, job_bitmap, l). nat (bit_set_count (pl_nodes_avail l)))")
  show "wf (measure (\<lambda>(c :: ctld, job_ptr :: 'g job_record, job_bitmap :: bitstr, l).
              nat (bit_set_count (pl_nodes_avail l))))"
    by simp
next
  fix c :: ctld and job_ptr :: "'g job_record" and job_bitmap :: bitstr and l x l1
  assume "add_node c job_ptr job_bitmap l = Some x" and "x = Inr l1"
  then have "bit_set_count (pl_nodes_avail l1) < bit_set_count (pl_nodes_avail l)"
    using add_node_less by blast
  then show "((c, job_ptr, job_bitmap, l1), c, job_ptr, job_bitmap, l)
        \<in> measure (\<lambda>(c, job_ptr, job_bitmap, l). nat (bit_set_count (pl_nodes_avail l)))"
    by (simp add: bit_set_count_def)
qed

declare add_nodes.simps [simp del]

text \<open>\<open>if (step_spec->cpu_count)\<close>: the picked nodes must hold the processors asked for.\<close>

definition pick_cpu_count ::
  "ctld \<Rightarrow> 'g job_record \<Rightarrow> bitstr \<Rightarrow> pick_locals \<Rightarrow> (pick_result + pick_locals) option" where
  "pick_cpu_count c job_ptr job_bitmap l =
     (let cpu_cnt_req = spec_cpu_count (pl_spec l) in
        if cpu_cnt_req = 0 then Some (Inr l)
        else
          (case count_cpus c job_ptr job_bitmap (pl_nodes_picked l) (pl_usable_cpu_cnt l) of
             None \<Rightarrow> None
           | Some n \<Rightarrow>
               let l1 = l \<lparr> pl_cpus_picked_cnt := n \<rparr> in
                 (case (if cpu_cnt_req > word_of_int n \<and>
                           (spec_max_nodes (pl_spec l1) = 0 \<or>
                            spec_max_nodes (pl_spec l1) > word_of_int (pl_nodes_picked_cnt l1))
                        then
                          (case pl_nodes_picked l1 of
                             None \<Rightarrow> None
                           | Some picked \<Rightarrow>
                               add_nodes c job_ptr job_bitmap
                                 (l1 \<lparr> pl_nodes_picked_cnt := bit_set_count picked \<rparr>))
                        else Some l1) of
                    None \<Rightarrow> None
                  | Some l2 \<Rightarrow>
                      if cpu_cnt_req > word_of_int (pl_cpus_picked_cnt l2) then
                        (if cpu_cnt_req \<le>
                              word_of_int (c_int (pl_cpus_picked_cnt l2 + pl_mem_blocked_cpus l2))
                         then Some (Inl (cleanup (l2 \<lparr> pl_return_code := ESLURM_NODES_BUSY \<rparr>)))
                         else if \<not> bit_super_set job_bitmap (up_node_bitmap c)
                         then Some (Inl (cleanup (l2 \<lparr> pl_return_code := ESLURM_NODE_NOT_AVAIL \<rparr>)))
                         else Some (Inl (cleanup l2)))
                      else Some (Inr l2))))"

subsection \<open>The node picker\<close>

text \<open>A part of the function that either returns or hands its locals to the rest.\<close>

definition stage ::
  "(pick_result + 'a) option \<Rightarrow> ('a \<Rightarrow> pick_result option) \<Rightarrow> pick_result option" where
  "stage r k = (case r of None \<Rightarrow> None | Some (Inl x) \<Rightarrow> Some x | Some (Inr l) \<Rightarrow> k l)"

text \<open>The general case: what follows the exclusive mode in \<open>_pick_step_nodes\<close>.\<close>

definition pick_general ::
  "ctld \<Rightarrow> 'g plugins \<Rightarrow> 'g job_record \<Rightarrow> bitstr \<Rightarrow> job_step_create_request_msg \<Rightarrow> 'g option
     \<Rightarrow> int \<Rightarrow> bitstr \<Rightarrow> pick_result option" where
  "pick_general c p job_ptr job_bitmap step_spec step_gres_list cpt nodes_avail =
     (let l0 = \<lparr> pl_spec = step_spec, pl_nodes_avail = nodes_avail, pl_nodes_idle = None,
                 pl_nodes_picked = None, pl_usable_cpu_cnt = None, pl_mem_blocked_nodes = 0,
                 pl_mem_blocked_cpus = 0, pl_return_code = SLURM_SUCCESS,
                 pl_nodes_picked_cnt = 0, pl_cpus_picked_cnt = 0 \<rparr>
      in
        stage
          (if (spec_mem_per_cpu step_spec \<noteq> 0 \<and> is_mem_resv c) \<or> spec_gres step_spec \<noteq> None
           then
             (case usable_nodes p job_ptr step_spec step_gres_list cpt
                     (job_nodes (job_resrcs job_ptr))
                     \<lparr> us_nodes_avail = nodes_avail,
                       us_usable_cpu_cnt = replicate (nat (node_record_count c)) 0,
                       us_fail_mode = ESLURM_INVALID_TASK_MEMORY,
                       us_mem_blocked_nodes = 0, us_mem_blocked_cpus = 0 \<rparr> of
                None \<Rightarrow> None
              | Some (Inl r) \<Rightarrow> Some (Inl r)
              | Some (Inr s) \<Rightarrow>
                  Some (Inr (l0 \<lparr> pl_nodes_avail := us_nodes_avail s,
                                   pl_usable_cpu_cnt := Some (us_usable_cpu_cnt s),
                                   pl_mem_blocked_nodes := us_mem_blocked_nodes s,
                                   pl_mem_blocked_cpus := us_mem_blocked_cpus s \<rparr>)))
           else Some (Inr l0))
          (\<lambda>l1.
             if spec_min_nodes step_spec = INFINITE
             then Some (Some (pl_nodes_avail l1), SLURM_SUCCESS, step_spec)
             else
               stage (Some (pick_node_list c p job_bitmap l1))
                 (\<lambda>l2. stage (Some (pick_relative job_ptr l2))
                   (\<lambda>l3. stage (pick_cpus_to_nodes job_ptr l3)
                     (\<lambda>l4. stage (pick_min_nodes c job_bitmap l4)
                       (\<lambda>l5. stage (pick_cpu_count c job_ptr job_bitmap l5)
                         (\<lambda>l6. Some (pl_nodes_picked l6, SLURM_SUCCESS, pl_spec l6))))))))"

text \<open>
  The first step of a job (\<open>next_step_id\<close> is 0) waits for the prolog and for the
  nodes: the error and the job, or the job, no longer configuring.
\<close>

definition pick_first_step ::
  "ctld \<Rightarrow> 'g job_record \<Rightarrow> bitstr \<Rightarrow> (rc \<times> 'g job_record) + 'g job_record" where
  "pick_first_step c job_ptr job_bitmap =
     (if next_step_id job_ptr = 0 then
        (if (case details_prolog_running job_ptr of None \<Rightarrow> False | Some r \<Rightarrow> r \<noteq> 0)
         then Inl (ESLURM_PROLOG_RUNNING, job_ptr)
         else if job_node_not_ready c job_bitmap
         then Inl (ESLURM_NODES_BUSY,
                   if job_time_limit job_ptr \<noteq> INFINITE
                   then job_ptr \<lparr> end_time := now c + uint (job_time_limit job_ptr * 60) \<rparr>
                   else job_ptr)
         else Inr (job_ptr \<lparr> job_state := job_state job_ptr AND NOT JOB_CONFIGURING \<rparr>))
      else Inr job_ptr)"

text \<open>
  \<open>_pick_step_nodes\<close>: the bitmap or NULL, the return code, the request as the function
  leaves it, and the job. No result means that the daemon stops or reads outside an
  array.
\<close>

definition pick_step_nodes ::
  "ctld \<Rightarrow> 'g plugins \<Rightarrow> 'g job_record \<Rightarrow> job_step_create_request_msg \<Rightarrow> 'g option \<Rightarrow> int
     \<Rightarrow> (pick_result \<times> 'g job_record) option" where
  "pick_step_nodes c p job_ptr step_spec step_gres_list cpt =
     (case job_node_bitmap job_ptr of
        None \<Rightarrow> Some ((None, ESLURM_REQUESTED_NODE_CONFIG_UNAVAILABLE, step_spec), job_ptr)
      | Some job_bitmap \<Rightarrow>
          if spec_max_nodes step_spec \<noteq> 0 \<and> spec_max_nodes step_spec < spec_min_nodes step_spec
          then Some ((None, ESLURM_INVALID_NODE_COUNT, step_spec), job_ptr)
          else
            let nodes_avail = bit_and job_bitmap (up_node_bitmap c);
                jr = job_resrcs job_ptr;
                spec1 = (if spec_mem_per_cpu step_spec \<noteq> 0 \<and>
                            (memory_allocated jr = None \<or> memory_used jr = None)
                         then step_spec \<lparr> spec_mem_per_cpu := 0 \<rparr> else step_spec)
            in
              (case pick_first_step c job_ptr job_bitmap of
                 Inl (e, job1) \<Rightarrow> Some ((None, e, spec1), job1)
               | Inr job1 \<Rightarrow>
                   map_option (\<lambda>r. (r, job1))
                     (if spec_exclusive spec1 \<noteq> 0
                      then pick_exclusive c p job1 job_bitmap spec1 step_gres_list cpt nodes_avail
                      else pick_general c p job1 job_bitmap spec1 step_gres_list cpt nodes_avail)))"

section \<open>Creating a step\<close>

subsection \<open>The task layout\<close>

record layout_state =
  ls_cpus_per_node :: "u16 list"
  ls_cpu_count_reps :: "u32 list"
  ls_cpu_inx :: int
  ls_set_nodes :: int
  ls_job_node_offset :: int

text \<open>
  The body of the loop of \<open>step_layout_create\<close> for a node \<open>i\<close> of the step:
  \<open>Inl ()\<close> is \<open>return NULL\<close>, no result is \<open>fatal\<close> or an index outside an array.
\<close>

definition layout_node ::
  "ctld \<Rightarrow> 'g plugins \<Rightarrow> 'g job_record \<Rightarrow> 'g step_record \<Rightarrow> int \<Rightarrow> layout_state
     \<Rightarrow> (unit + layout_state) option" where
  "layout_node c p job_ptr step_ptr i s =
     (let jr = job_resrcs job_ptr;
          pos = bit_get_pos_num (node_bitmap jr) i
      in
        if pos = -1 then Some (Inl ())
        else if (word_of_int pos :: u32) \<ge> nhosts jr then None
        else
          do {
            cpu \<leftarrow> c_nth (cpus jr) pos;
            used \<leftarrow> c_nth (cpus_used jr) pos;
            let usable_cpus = (if exclusive step_ptr \<noteq> 0 then uint cpu - uint used
                               else uint cpu);
            usable_cpus \<leftarrow>
              (if mem_per_cpu step_ptr \<noteq> 0 \<and> is_mem_resv c then
                 do {
                   mem_alloc \<leftarrow> memory_allocated jr;
                   mem_used \<leftarrow> memory_used jr;
                   a \<leftarrow> c_nth mem_alloc pos;
                   u \<leftarrow> c_nth mem_used pos;
                   let usable_mem = c_int (uint (a - u));
                   let usable_mem =
                         c_int (uint ((word_of_int usable_mem :: u32) div mem_per_cpu step_ptr));
                   Some (min usable_cpus usable_mem)
                 }
               else Some usable_cpus);
            let gres_cpus = gres_plugin_step_test p (gres_list step_ptr) (job_gres_list job_ptr)
                              (ls_job_node_offset s) False (job_id job_ptr) (step_id step_ptr);
            let usable_cpus = min_int_u32 usable_cpus gres_cpus;
            if usable_cpus \<le> 0 then Some (Inl ())
            else
              do {
                s1 \<leftarrow>
                  (if ls_cpu_inx s = -1 then
                     do {
                       cpn \<leftarrow> c_upd (ls_cpus_per_node s) 0 (word_of_int usable_cpus);
                       reps \<leftarrow> c_upd (ls_cpu_count_reps s) 0 1;
                       Some (s \<lparr> ls_cpu_inx := 0, ls_cpus_per_node := cpn,
                                 ls_cpu_count_reps := reps \<rparr>)
                     }
                   else
                     do {
                       cur \<leftarrow> c_nth (ls_cpus_per_node s) (ls_cpu_inx s);
                       if uint cur \<noteq> usable_cpus then
                         do {
                           let inx = ls_cpu_inx s + 1;
                           cpn \<leftarrow> c_upd (ls_cpus_per_node s) inx (word_of_int usable_cpus);
                           reps \<leftarrow> c_upd (ls_cpu_count_reps s) inx 1;
                           Some (s \<lparr> ls_cpu_inx := inx, ls_cpus_per_node := cpn,
                                     ls_cpu_count_reps := reps \<rparr>)
                         }
                       else
                         do {
                           r \<leftarrow> c_nth (ls_cpu_count_reps s) (ls_cpu_inx s);
                           reps \<leftarrow> c_upd (ls_cpu_count_reps s) (ls_cpu_inx s) (r + 1);
                           Some (s \<lparr> ls_cpu_count_reps := reps \<rparr>)
                         }
                     });
                Some (Inr (s1 \<lparr> ls_set_nodes := ls_set_nodes s1 + 1 \<rparr>))
              }
          })"

fun layout_nodes ::
  "ctld \<Rightarrow> 'g plugins \<Rightarrow> 'g job_record \<Rightarrow> bitstr \<Rightarrow> 'g step_record \<Rightarrow> u32 \<Rightarrow> int list
     \<Rightarrow> layout_state \<Rightarrow> (unit + layout_state) option" where
  "layout_nodes c p job_ptr job_bitmap step_ptr node_count [] s = Some (Inr s)"
| "layout_nodes c p job_ptr job_bitmap step_ptr node_count (i # rest) s =
     (if \<not> bit_test job_bitmap i
      then layout_nodes c p job_ptr job_bitmap step_ptr node_count rest s
      else
        let s1 = s \<lparr> ls_job_node_offset := ls_job_node_offset s + 1 \<rparr> in
          if \<not> bit_test (step_node_bitmap step_ptr) i
          then layout_nodes c p job_ptr job_bitmap step_ptr node_count rest s1
          else
            (case layout_node c p job_ptr step_ptr i s1 of
               None \<Rightarrow> None
             | Some (Inl u) \<Rightarrow> Some (Inl u)
             | Some (Inr s2) \<Rightarrow>
                 if (word_of_int (ls_set_nodes s2) :: u32) = node_count then Some (Inr s2)
                 else layout_nodes c p job_ptr job_bitmap step_ptr node_count rest s2))"

text \<open>
  \<open>step_layout_create\<close> for a step of the job \<open>job_ptr\<close>: the layout or NULL, and the
  step record, whose \<open>mem_per_cpu\<close> the function may clear. The two arrays
  \<open>cpus_per_node\<close> and \<open>cpu_count_reps\<close> are variable-length arrays of \<open>node_count\<close>
  elements of two and of four bytes on the stack; there is no result when they do not
  fit it, as for the node count \<open>INFINITE\<close> of a request for all nodes.
\<close>

definition step_layout_create ::
  "ctld \<Rightarrow> 'g plugins \<Rightarrow> 'g job_record \<Rightarrow> 'g step_record \<Rightarrow> string option \<Rightarrow> u32 \<Rightarrow> u32 \<Rightarrow> u16
     \<Rightarrow> task_dist_states \<Rightarrow> u32 \<Rightarrow> (slurm_step_layout option \<times> 'g step_record) option" where
  "step_layout_create c p job_ptr step_ptr step_node_list node_count num_tasks cpt task_dist
     plane_size =
     (let jr = job_resrcs job_ptr;
          step1 = (if mem_per_cpu step_ptr \<noteq> 0 \<and> is_mem_resv c \<and>
                      (memory_allocated jr = None \<or> memory_used jr = None)
                   then step_ptr \<lparr> mem_per_cpu := 0 \<rparr> else step_ptr)
      in
        if stack_size c < 2 * uint node_count + 4 * uint node_count then None
        else
        case job_node_bitmap job_ptr of
          None \<Rightarrow> None
        | Some job_bitmap \<Rightarrow>
            (case layout_nodes c p job_ptr job_bitmap step1 node_count
                    [bit_ffs job_bitmap..bit_fls job_bitmap]
                    \<lparr> ls_cpus_per_node = replicate (unat node_count) 0,
                      ls_cpu_count_reps = replicate (unat node_count) 0,
                      ls_cpu_inx = -1, ls_set_nodes = 0, ls_job_node_offset = -1 \<rparr> of
               None \<Rightarrow> None
             | Some (Inl u) \<Rightarrow> Some (None, step1)
             | Some (Inr s) \<Rightarrow>
                 Some (slurm_step_layout_create p step_node_list (ls_cpus_per_node s)
                         (ls_cpu_count_reps s) node_count num_tasks cpt task_dist plane_size,
                       step1)))"

subsection \<open>The checks on the job and the request\<close>

definition test_strlen :: "string option \<Rightarrow> int \<Rightarrow> rc" where
  "test_strlen test_str max_str_len =
     (let i = (case test_str of None \<Rightarrow> 0 | Some s \<Rightarrow> int (length s)) in
        if i > max_str_len then ESLURM_PATHNAME_TOO_LONG else SLURM_SUCCESS)"

text \<open>
  The checks of \<open>step_create\<close> before it changes anything; \<open>job_ptr\<close> is what
  \<open>find_job_record (step_specs->job_id)\<close> returns. The error, or the job.
\<close>

definition step_check ::
  "ctld \<Rightarrow> 'g job_record option \<Rightarrow> job_step_create_request_msg \<Rightarrow> rc + 'g job_record" where
  "step_check c job_opt step_specs =
     (case job_opt of
        None \<Rightarrow> Inl ESLURM_INVALID_JOB_ID
      | Some job_ptr \<Rightarrow>
          if details_prolog_running job_ptr = None \<or> IS_JOB_SUSPENDED job_ptr
          then Inl ESLURM_DISABLED
          else if IS_JOB_PENDING job_ptr then Inl ESLURM_DUPLICATE_JOB_ID
          else if spec_user_id step_specs \<noteq> user_id job_ptr then Inl ESLURM_ACCESS_DENIED
          else if IS_JOB_FINISHED job_ptr \<or> end_time job_ptr \<le> now c
          then Inl ESLURM_ALREADY_DONE
          else if spec_task_dist step_specs \<noteq> SLURM_DIST_CYCLIC \<and>
                  spec_task_dist step_specs \<noteq> SLURM_DIST_BLOCK \<and>
                  spec_task_dist step_specs \<noteq> SLURM_DIST_CYCLIC_CYCLIC \<and>
                  spec_task_dist step_specs \<noteq> SLURM_DIST_BLOCK_CYCLIC \<and>
                  spec_task_dist step_specs \<noteq> SLURM_DIST_CYCLIC_BLOCK \<and>
                  spec_task_dist step_specs \<noteq> SLURM_DIST_BLOCK_BLOCK \<and>
                  spec_task_dist step_specs \<noteq> SLURM_DIST_PLANE \<and>
                  spec_task_dist step_specs \<noteq> SLURM_DIST_ARBITRARY
          then Inl ESLURM_BAD_DIST
          else if spec_task_dist step_specs = SLURM_DIST_ARBITRARY \<and>
                  switch_type c = ''switch/elan''
          then Inl ESLURM_TASKDIST_ARBITRARY_UNSUPPORTED
          else if test_strlen (spec_ckpt_dir step_specs) 1024 \<noteq> SLURM_SUCCESS \<or>
                  test_strlen (spec_gres step_specs) 1024 \<noteq> SLURM_SUCCESS \<or>
                  test_strlen (spec_host step_specs) 1024 \<noteq> SLURM_SUCCESS \<or>
                  test_strlen (spec_name step_specs) 1024 \<noteq> SLURM_SUCCESS \<or>
                  test_strlen (spec_network step_specs) 1024 \<noteq> SLURM_SUCCESS \<or>
                  test_strlen (spec_node_list step_specs) (1024 * 64) \<noteq> SLURM_SUCCESS
          then Inl ESLURM_PATHNAME_TOO_LONG
          else Inr job_ptr)"

subsection \<open>Normalising the request\<close>

text \<open>
  The lines of \<open>step_create\<close> from \<open>orig_cpu_count\<close> to \<open>no_kill\<close>: the error, or the
  request and \<open>cpus_per_task\<close> (an \<open>int\<close>).
\<close>

definition normalize_overcommit :: "job_step_create_request_msg \<Rightarrow> job_step_create_request_msg" where
  "normalize_overcommit step_specs =
     (if spec_overcommit step_specs \<noteq> 0 then
        (if spec_exclusive step_specs \<noteq> 0
         then step_specs \<lparr> spec_overcommit := 0, spec_cpu_count := spec_num_tasks step_specs \<rparr>
         else step_specs \<lparr> spec_cpu_count := 0 \<rparr>)
      else step_specs)"

definition derive_cpus_per_task :: "job_step_create_request_msg \<Rightarrow> int" where
  "derive_cpus_per_task step_specs =
     (if spec_cpu_count step_specs = 0 \<or>
         spec_cpu_count step_specs mod spec_num_tasks step_specs \<noteq> 0
      then 0
      else
        let cpt = c_int (uint (spec_cpu_count step_specs div spec_num_tasks step_specs)) in
          if cpt < 1 then 1 else cpt)"

definition step_normalize ::
  "job_step_create_request_msg \<Rightarrow> rc + (job_step_create_request_msg \<times> int)" where
  "step_normalize step_specs =
     (let spec1 = normalize_overcommit step_specs in
        if spec_num_tasks spec1 < 1 then Inl ESLURM_BAD_TASK_COUNT
        else
          let cpt = derive_cpus_per_task spec1;
              spec2 = (if spec_no_kill spec1 > 1 then spec1 \<lparr> spec_no_kill := 1 \<rparr> else spec1)
          in Inr (spec2, cpt))"

subsection \<open>The task count\<close>

text \<open>
  After the nodes are picked: an unset task count defaults, then the count is held
  against the most tasks \<open>node_count\<close> nodes may run. The error, or the request.
\<close>

definition default_num_tasks :: "job_step_create_request_msg \<Rightarrow> int \<Rightarrow> job_step_create_request_msg" where
  "default_num_tasks step_specs node_count =
     (if spec_num_tasks step_specs = NO_VAL then
        (if spec_cpu_count step_specs \<noteq> NO_VAL
         then step_specs \<lparr> spec_num_tasks := spec_cpu_count step_specs \<rparr>
         else step_specs \<lparr> spec_num_tasks := word_of_int node_count \<rparr>)
      else step_specs)"

definition step_task_count ::
  "ctld \<Rightarrow> job_step_create_request_msg \<Rightarrow> int \<Rightarrow> rc + job_step_create_request_msg" where
  "step_task_count c step_specs node_count =
     (let spec1 = default_num_tasks step_specs node_count in
        if spec_num_tasks spec1 > word_of_int (c_int (node_count * uint (max_tasks_per_node c)))
        then Inl ESLURM_BAD_TASK_COUNT
        else Inr spec1)"

subsection \<open>Building the record\<close>

text \<open>
  What \<open>step_create\<close> leaves behind: the return code, the job (NULL when there is
  none), the request, \<open>*new_step_record\<close> as the position of the record in the job's
  step list, and the static \<open>last_core_inx\<close> of \<open>_pick_step_cores\<close>.
\<close>

record 'g step_create_result =
  sc_rc :: rc
  sc_job :: "'g job_record option"
  sc_specs :: job_step_create_request_msg
  sc_new_step_record :: "nat option"
  sc_last_core_inx :: int

definition create_fail ::
  "rc \<Rightarrow> 'g job_record option \<Rightarrow> job_step_create_request_msg \<Rightarrow> int
     \<Rightarrow> 'g step_create_result option" where
  "create_fail e job_opt step_specs last_core_inx =
     Some \<lparr> sc_rc = e, sc_job = job_opt, sc_specs = step_specs, sc_new_step_record = None,
            sc_last_core_inx = last_core_inx \<rparr>"

text \<open>
  An error after the record is in the list: the record, as far as it is built, is at
  position \<open>k\<close>, and \<open>delete_step_record\<close> is called with its id.
\<close>

definition create_rollback ::
  "rc \<Rightarrow> 'g job_record \<Rightarrow> nat \<Rightarrow> 'g step_record \<Rightarrow> job_step_create_request_msg \<Rightarrow> int
     \<Rightarrow> 'g step_create_result option" where
  "create_rollback e job_ptr k step_ptr step_specs last_core_inx =
     create_fail e
       (Some (snd (delete_step_record (store_step job_ptr k step_ptr) (step_id step_ptr))))
       step_specs last_core_inx"

text \<open>The end of \<open>step_create\<close>, from \<open>checkpoint_alloc_jobinfo\<close>.\<close>

definition create_done ::
  "'g plugins \<Rightarrow> 'g job_record \<Rightarrow> nat \<Rightarrow> 'g step_record \<Rightarrow> job_step_create_request_msg \<Rightarrow> int
     \<Rightarrow> 'g step_create_result option" where
  "create_done p job_ptr k step_ptr step_specs last_core_inx =
     (if checkpoint_alloc_jobinfo p < 0 then None
      else Some \<lparr> sc_rc = SLURM_SUCCESS,
                  sc_job = Some (store_step job_ptr k (step_ptr \<lparr> check_job := True \<rparr>)),
                  sc_specs = step_specs, sc_new_step_record = Some k,
                  sc_last_core_inx = last_core_inx \<rparr>)"

text \<open>
  A reserved port count of 0 becomes the largest task count of a node plus one. No
  result: the layout has fewer than \<open>node_cnt\<close> task counts.
\<close>

definition default_resv_ports ::
  "slurm_step_layout \<Rightarrow> job_step_create_request_msg \<Rightarrow> job_step_create_request_msg option" where
  "default_resv_ports lay step_specs =
     (if spec_resv_port_cnt step_specs \<noteq> NO_VAL16 \<and> spec_resv_port_cnt step_specs = 0 then
        (if length (tasks lay) < unat (node_cnt lay) then None
         else Some (step_specs \<lparr> spec_resv_port_cnt :=
                      fold max (take (unat (node_cnt lay)) (tasks lay))
                        (spec_resv_port_cnt step_specs) + 1 \<rparr>))
      else Some step_specs)"

text \<open>The branch \<open>if (!batch_step)\<close> and what follows it.\<close>

definition step_launch_info ::
  "ctld \<Rightarrow> 'g plugins \<Rightarrow> 'g job_record \<Rightarrow> nat \<Rightarrow> 'g step_record \<Rightarrow> job_step_create_request_msg
     \<Rightarrow> string option \<Rightarrow> int \<Rightarrow> bool \<Rightarrow> int \<Rightarrow> 'g step_create_result option" where
  "step_launch_info c p job_ptr k step_ptr step_specs step_node_list cpt is_batch last_core_inx =
     (if is_batch then create_done p job_ptr k step_ptr step_specs last_core_inx
      else
        (case step_layout_create c p job_ptr step_ptr step_node_list (spec_min_nodes step_specs)
                (spec_num_tasks step_specs) (word_of_int cpt) (spec_task_dist step_specs)
                (ucast (spec_plane_size step_specs)) of
           None \<Rightarrow> None
         | Some (lay_opt, step1) \<Rightarrow>
             let step2 = step1 \<lparr> step_layout := lay_opt \<rparr> in
               (case lay_opt of
                  None \<Rightarrow>
                    create_rollback
                      (if spec_mem_per_cpu step_specs \<noteq> 0 then ESLURM_INVALID_TASK_MEMORY
                       else SLURM_ERROR)
                      job_ptr k step2 step_specs last_core_inx
                | Some lay \<Rightarrow>
                    (case default_resv_ports lay step_specs of
                       None \<Rightarrow> None
                     | Some spec1 \<Rightarrow>
                         let step3 = (if spec_resv_port_cnt spec1 \<noteq> NO_VAL16
                                      then step2 \<lparr> resv_port_cnt := spec_resv_port_cnt spec1 \<rparr>
                                      else step2);
                             i = (if spec_resv_port_cnt spec1 \<noteq> NO_VAL16
                                  then resv_port_alloc p step3 else SLURM_SUCCESS)
                         in
                           if i \<noteq> SLURM_SUCCESS
                           then create_rollback i job_ptr k step3 spec1 last_core_inx
                           else if switch_alloc_jobinfo p < 0 then None
                           else
                             let step4 = step3 \<lparr> switch_job := True \<rparr> in
                               if switch_build_jobinfo p (node_list lay) (tasks lay)
                                    (cyclic_alloc step4) (network step4) < 0
                               then create_rollback ESLURM_INTERCONNECT_FAILURE job_ptr k step4
                                      spec1 last_core_inx
                               else
                                 (case step_alloc_lps c p job_ptr step4 last_core_inx of
                                    None \<Rightarrow> None
                                  | Some a \<Rightarrow>
                                      create_done p
                                        (job_ptr \<lparr> job_resrcs := as_resrcs a,
                                                    job_gres_list := as_job_gres a \<rparr>)
                                        k (as_step a) spec1 (as_last_core_inx a))))))"

text \<open>
  From \<open>step_ptr->step_id = job_ptr->next_step_id++\<close> to the time limit: \<open>step_ptr\<close> is
  the new record, the last of the job's step list.
\<close>

definition step_build ::
  "ctld \<Rightarrow> 'g plugins \<Rightarrow> 'g job_record \<Rightarrow> 'g step_record \<Rightarrow> job_step_create_request_msg
     \<Rightarrow> 'g option \<Rightarrow> int \<Rightarrow> bool \<Rightarrow> u32 \<Rightarrow> bitstr \<Rightarrow> int \<Rightarrow> 'g step_create_result option" where
  "step_build c p job_ptr step_ptr step_specs step_gres_list cpt is_batch orig_cpu_count nodeset
     last_core_inx =
     (let k = length (step_list job_ptr) - 1;
          step1 = step_ptr \<lparr> step_id := next_step_id job_ptr \<rparr>;
          job1 = job_ptr \<lparr> next_step_id := next_step_id job_ptr + 1 \<rparr>;
          step_node_list =
            (if spec_node_list step_specs \<noteq> None \<and>
                spec_task_dist step_specs = SLURM_DIST_ARBITRARY
             then spec_node_list step_specs
             else bitmap2node_name p nodeset);
          spec1 = step_specs \<lparr> spec_node_list := bitmap2node_name p nodeset \<rparr>;
          step2 = step1 \<lparr>
            step_node_bitmap := nodeset,
            cyclic_alloc :=
              (if spec_task_dist spec1 = SLURM_DIST_CYCLIC \<or>
                  spec_task_dist spec1 = SLURM_DIST_CYCLIC_CYCLIC \<or>
                  spec_task_dist spec1 = SLURM_DIST_CYCLIC_BLOCK then 1 else 0),
            gres := spec_gres spec1,
            gres_list := step_gres_list,
            port := spec_port spec1,
            host := spec_host spec1,
            batch_step := (if is_batch then 1 else 0),
            cpus_per_task := word_of_int cpt,
            mem_per_cpu := spec_mem_per_cpu spec1,
            ckpt_interval := spec_ckpt_interval spec1,
            ckpt_time := now c,
            cpu_count := orig_cpu_count,
            exit_code := NO_VAL,
            exclusive := spec_exclusive spec1,
            ckpt_dir := spec_ckpt_dir spec1,
            no_kill := spec_no_kill spec1,
            name := (if spec_name spec1 \<noteq> None \<and> spec_name spec1 \<noteq> Some []
                     then spec_name spec1 else job_name job1),
            network := (if spec_network spec1 \<noteq> None \<and> spec_network spec1 \<noteq> Some []
                        then spec_network spec1 else job_network job1) \<rparr>;
          spec2 = spec1 \<lparr> spec_gres := None \<rparr>
      in
        if spec_time_limit spec2 = NO_VAL \<or> spec_time_limit spec2 = 0 \<or>
           spec_time_limit spec2 = INFINITE
        then step_launch_info c p job1 k (step2 \<lparr> time_limit := INFINITE \<rparr>) spec2
               step_node_list cpt is_batch last_core_inx
        else if spec_time_limit spec2 > part_max_time job1 \<and> enforce_part_limits c \<noteq> 0
        then create_rollback ESLURM_INVALID_TIME_LIMIT job1 k step2 spec2 last_core_inx
        else step_launch_info c p job1 k (step2 \<lparr> time_limit := spec_time_limit spec2 \<rparr>) spec2
               step_node_list cpt is_batch last_core_inx)"

subsection \<open>\<open>step_create\<close>\<close>

text \<open>
  \<open>step_create\<close>, with \<open>job_opt\<close> what \<open>find_job_record (step_specs->job_id)\<close>
  returns and \<open>is_batch\<close> the parameter \<open>batch_step\<close>. The calls to the accounting
  storage at the end are left out: they do not touch the job or the step. No result
  means that the daemon stops (\<open>fatal\<close>) or reads outside an array.
\<close>

definition step_create ::
  "ctld \<Rightarrow> 'g plugins \<Rightarrow> 'g job_record option \<Rightarrow> job_step_create_request_msg \<Rightarrow> bool \<Rightarrow> int
     \<Rightarrow> 'g step_create_result option" where
  "step_create c p job_opt step_specs is_batch last_core_inx =
     (case step_check c job_opt step_specs of
        Inl e \<Rightarrow> create_fail e job_opt step_specs last_core_inx
      | Inr job_ptr \<Rightarrow>
          let orig_cpu_count = spec_cpu_count step_specs in
            (case step_normalize step_specs of
               Inl e \<Rightarrow> create_fail e job_opt (normalize_overcommit step_specs) last_core_inx
             | Inr (spec1, cpt) \<Rightarrow>
                 let (i, step_gres_list) =
                       gres_plugin_step_state_validate p (spec_gres spec1)
                         (job_gres_list job_ptr) (job_id job_ptr) NO_VAL
                 in
                   if i \<noteq> SLURM_SUCCESS then create_fail i job_opt spec1 last_core_inx
                   else
                     (case pick_step_nodes c p (job_ptr \<lparr> time_last_active := now c \<rparr>) spec1
                             step_gres_list cpt of
                        None \<Rightarrow> None
                      | Some ((None, ret_code, spec2), job1) \<Rightarrow>
                          create_fail ret_code (Some job1) spec2 last_core_inx
                      | Some ((Some nodeset, ret_code, spec2), job1) \<Rightarrow>
                          let node_count = bit_set_count nodeset in
                            (case step_task_count c spec2 node_count of
                               Inl e \<Rightarrow>
                                 create_fail e (Some job1) (default_num_tasks spec2 node_count)
                                   last_core_inx
                             | Inr spec3 \<Rightarrow>
                                 (case create_step_record c job1 of
                                    None \<Rightarrow>
                                      create_fail ESLURMD_TOOMANYSTEPS (Some job1) spec3
                                        last_core_inx
                                  | Some (step_ptr, job2) \<Rightarrow>
                                      step_build c p job2 step_ptr spec3 step_gres_list cpt
                                        is_batch orig_cpu_count nodeset last_core_inx)))))"
section \<open>Properties of the release\<close>






section \<open>Properties of the core picker\<close>




section \<open>Properties of the sweep\<close>

text \<open>
  The minutes a step has run at time \<open>t\<close>, as 32 bits hold the quotient of the C
  division; the step has timed out when its limit is neither \<open>INFINITE\<close> nor \<open>NO_VAL\<close>
  and the minutes have reached it.
\<close>

definition run_minutes :: "'g step_record \<Rightarrow> time_t \<Rightarrow> int" where
  "run_minutes s t = ((t - start_time s - tot_sus_time s) sdiv 60) mod 2 ^ 32"

definition step_timed_out :: "'g step_record \<Rightarrow> time_t \<Rightarrow> bool" where
  "step_timed_out s t \<longleftrightarrow>
     time_limit s \<noteq> 0xffffffff \<and> time_limit s \<noteq> 0xfffffffe \<and>
     uint (time_limit s) \<le> run_minutes s t"

text \<open>
  The hosts of a step's TIMELIMIT request: the names, in the order of the node table, of
  exactly the nodes of the table whose bit is set in \<open>step_node_bitmap\<close>; with a front
  end, the job's \<open>batch_host\<close>.
\<close>

definition step_hosts :: "ctld \<Rightarrow> 'g step_record \<Rightarrow> string list" where
  "step_hosts c s =
     map (\<lambda>n. node_name (node_record_table c ! n))
       (filter (\<lambda>n. n < length (step_node_bitmap s) \<and> step_node_bitmap s ! n)
          [0..<length (node_record_table c)])"

definition timelimit_hosts :: "ctld \<Rightarrow> 'g job_record \<Rightarrow> 'g step_record \<Rightarrow> string list" where
  "timelimit_hosts c j s =
     (if have_front_end c then (case batch_host j of None \<Rightarrow> [] | Some h \<Rightarrow> [h])
      else step_hosts c s)"

definition timelimit_request :: "ctld \<Rightarrow> 'g job_record \<Rightarrow> 'g step_record \<Rightarrow> event" where
  "timelimit_request c j s =
     Agent_queue_request REQUEST_KILL_TIMELIMIT (timelimit_hosts c j s) (job_id j) (step_id s)"

section \<open>A job of two nodes\<close>

text \<open>
  Two nodes of four processors (two sockets of two cores) and 8192 MB each; memory is a
  reserved resource. The step \<open>ex_step\<close> runs two tasks on each node.
\<close>

definition ex_ctld :: ctld where
  "ex_ctld = \<lparr> node_record_table =
       [\<lparr> node_name = ''n0'', node_power_save = False, node_no_respond = False,
          node_cpus = 4, node_config_cpus = 4 \<rparr>,
        \<lparr> node_name = ''n1'', node_power_save = False, node_no_respond = False,
          node_cpus = 4, node_config_cpus = 4 \<rparr>],
     up_node_bitmap = [True, True], switch_type = ''switch/none'',
     max_tasks_per_node = 128, enforce_part_limits = 0, fast_schedule = 1,
     select_type_param = 0x0010, now = 1000, getuid = 500, have_bg = False,
     have_front_end = False, stack_size = 8388608 \<rparr>"

definition ex_resrcs :: job_resources where
  "ex_resrcs = \<lparr> core_bitmap = replicate 8 True, core_bitmap_used = replicate 8 False,
     cpu_array_cnt = 1, cpu_array_value = Some [4], cpus = [4, 4], cpus_used = [0, 0],
     cores_per_socket = [2], memory_allocated = Some [8192, 8192],
     memory_used = Some [0, 0], nhosts = 2, node_bitmap = [True, True],
     sock_core_rep_count = [2], sockets_per_node = [2] \<rparr>"

definition ex_step :: "nat step_record" where
  "ex_step = zero_step \<lparr> step_id := 0, cpus_per_task := 1, mem_per_cpu := 1024,
     exit_code := NO_VAL, time_limit := 1, start_time := 1000,
     step_layout := Some \<lparr> node_cnt = 2, node_list = Some ''n[0-1]'', tasks = [2, 2] \<rparr>,
     step_node_bitmap := [True, True], switch_job := True, check_job := True \<rparr>"



text \<open>
  Plugins for the example: no generic resources (\<open>gres_plugin_step_test\<close> answers
  \<open>NO_VAL\<close>, no limit), tasks laid out evenly over the nodes, switch, checkpoint
  and port plugins that succeed, and the cores of a node numbered socket by socket.
\<close>

definition ex_node_names :: "string \<Rightarrow> bitstr option" where
  "ex_node_names s =
     (if s = ''n0'' then Some [True, False]
      else if s = ''n1'' then Some [False, True]
      else if s = ''n[0-1]'' then Some [True, True]
      else None)"

definition ex_bitmap_names :: "bitstr \<Rightarrow> string option" where
  "ex_bitmap_names b =
     (if b = [True, False] then Some ''n0''
      else if b = [False, True] then Some ''n1''
      else if b = [True, True] then Some ''n[0-1]''
      else Some [])"

definition ex_layout ::
  "string option \<Rightarrow> u16 list \<Rightarrow> u32 list \<Rightarrow> u32 \<Rightarrow> u32 \<Rightarrow> u16 \<Rightarrow> task_dist_states \<Rightarrow> u32
     \<Rightarrow> slurm_step_layout option" where
  "ex_layout nl cpn reps ncnt ntasks cpt dist plane =
     (if ncnt = 0 then None
      else Some \<lparr> node_cnt = ncnt, node_list = nl,
                  tasks = replicate (unat ncnt) (ucast (ntasks div ncnt)) \<rparr>)"

definition ex_plugins :: "nat plugins" where
  "ex_plugins = \<lparr>
     gres_plugin_step_state_validate = (\<lambda>spec jg jid sid. (SLURM_SUCCESS, None)),
     gres_plugin_step_test = (\<lambda>sg jg n ign jid sid. NO_VAL),
     gres_plugin_step_alloc = (\<lambda>sg jg n cpus jid sid. (sg, jg)),
     gres_plugin_step_dealloc = (\<lambda>sg jg jid sid. (sg, jg)),
     slurm_step_layout_create = ex_layout,
     resv_port_alloc = (\<lambda>s. SLURM_SUCCESS),
     switch_alloc_jobinfo = 0,
     switch_build_jobinfo = (\<lambda>nl ts cyc net. 0),
     checkpoint_alloc_jobinfo = 0,
     node_name2bitmap = ex_node_names,
     bitmap2node_name = ex_bitmap_names,
     validate_slurm_user = (\<lambda>uid. uid = 0 \<or> uid = 500),
     switch_g_part_comp = False,
     get_job_resources_cnt = (\<lambda>jr n. if 0 \<le> n \<and> n < 2 then Some (2, 2) else None),
     get_job_resources_offset =
       (\<lambda>jr n s c. if 0 \<le> n \<and> n < 2 \<and> 0 \<le> s \<and> s < 2 \<and> 0 \<le> c \<and> c < 2
                   then n * 4 + s * 2 + c else -1) \<rparr>"

text \<open>
  The job without steps, and the job while \<open>ex_step\<close> runs: two processors and
  2048 MB are in use on each node.
\<close>

definition ex_job0 :: "nat job_record" where
  "ex_job0 = \<lparr> job_id = 7, user_id = 100, job_state = 1, batch_host = Some ''n0'',
     db_index = 1, derived_ec = 0, details_prolog_running = Some 0, end_time = 100000,
     job_gres_list = 0, job_name = Some ''job'', job_network = None,
     job_node_bitmap = Some [True, True], job_resrcs = ex_resrcs, job_start_time = 900,
     job_time_limit = 60, next_step_id = 0, nodes = Some ''n[0-1]'', part_max_time = 120,
     step_list = [], suspend_time = 0, time_last_active = 900, total_cpus = 8 \<rparr>"

definition ex_job :: "nat job_record" where
  "ex_job = ex_job0 \<lparr> next_step_id := 1, step_list := [ex_step],
     job_resrcs := ex_resrcs \<lparr> cpus_used := [2, 2], memory_used := Some [2048, 2048] \<rparr> \<rparr>"

text \<open>The job with a step like \<open>ex_step\<close> that has no nodes.\<close>

definition ex_job_nodeless :: "nat job_record" where
  "ex_job_nodeless = ex_job \<lparr> step_list := [ex_step \<lparr> step_node_bitmap := [False, False] \<rparr>] \<rparr>"


text \<open>Two reports for \<open>ex_step\<close>, and the job after the first and after both.\<close>

definition ex_report1 :: step_complete_msg where
  "ex_report1 = \<lparr> req_job_id = 7, req_job_step_id = 0, range_first = 0, range_last = 0,
     step_rc = 0 \<rparr>"

definition ex_report2 :: step_complete_msg where
  "ex_report2 = \<lparr> req_job_id = 7, req_job_step_id = 0, range_first = 1, range_last = 1,
     step_rc = 7 \<rparr>"

definition ex_job_r1 :: "nat job_record" where
  "ex_job_r1 = ex_job \<lparr> step_list :=
     [ex_step \<lparr> exit_node_bitmap := Some [True, False], exit_code := 0 \<rparr>] \<rparr>"

definition ex_job_r2 :: "nat job_record" where
  "ex_job_r2 = ex_job \<lparr> step_list :=
     [ex_step \<lparr> exit_node_bitmap := Some [True, True], exit_code := 7,
                switch_job := False \<rparr>] \<rparr>"



text \<open>
  A request of user 100 for a step of job 7: four tasks of one processor on two nodes,
  ten minutes; and the same request with the task count left unset.
\<close>

definition ex_request :: job_step_create_request_msg where
  "ex_request = \<lparr> spec_ckpt_interval = 0, spec_ckpt_dir = None, spec_cpu_count = 4,
     spec_exclusive = 0, spec_gres = None, spec_host = Some ''login'', spec_immediate = 0,
     spec_job_id = 7, spec_mem_per_cpu = 1024, spec_min_nodes = 2, spec_max_nodes = 2,
     spec_name = None, spec_network = None, spec_no_kill = 0, spec_node_list = None,
     spec_num_tasks = 4, spec_overcommit = 0, spec_plane_size = 0, spec_port = 0,
     spec_relative = NO_VAL16, spec_resv_port_cnt = NO_VAL16,
     spec_task_dist = SLURM_DIST_BLOCK, spec_time_limit = 10, spec_user_id = 100 \<rparr>"

definition ex_request_unset :: job_step_create_request_msg where
  "ex_request_unset = ex_request \<lparr> spec_num_tasks := NO_VAL \<rparr>"

text \<open>Two requests agree on the task count and the processor count.\<close>

definition same_counts ::
  "job_step_create_request_msg \<Rightarrow> job_step_create_request_msg \<Rightarrow> bool" where
  "same_counts s s' \<longleftrightarrow>
     spec_num_tasks s' = spec_num_tasks s \<and> spec_cpu_count s' = spec_cpu_count s"

text \<open>
  The request with overcommit and exclusive both set and eight processors asked for,
  and a request of one task with 2^31 processors.
\<close>

definition ex_request_oc :: job_step_create_request_msg where
  "ex_request_oc = ex_request \<lparr> spec_overcommit := 1, spec_exclusive := 1,
     spec_cpu_count := 8 \<rparr>"

definition ex_request_big :: job_step_create_request_msg where
  "ex_request_big = ex_request \<lparr> spec_cpu_count := 0x80000000, spec_num_tasks := 1 \<rparr>"

text \<open>
  What the part of \<open>step_create\<close> after \<open>_create_step_record\<close> may leave, for the job
  \<open>j\<close> that holds the new record at position \<open>k\<close> with the id \<open>sid\<close>: on success a
  record with that id at position \<open>k\<close>, in the job with its resources charged; on an
  error the job after \<open>delete_step_record\<close> for that id.
\<close>

definition create_outcome ::
  "'g job_record \<Rightarrow> nat \<Rightarrow> u32 \<Rightarrow> job_step_create_request_msg \<Rightarrow> 'g step_create_result
     \<Rightarrow> bool" where
  "create_outcome j k sid s r \<longleftrightarrow>
     spec_num_tasks (sc_specs r) = spec_num_tasks s \<and>
     (if sc_rc r = SLURM_SUCCESS
      then sc_new_step_record r = Some k \<and>
           (\<exists>st jr g. step_id st = sid \<and>
              sc_job r = Some (store_step (j \<lparr> job_resrcs := jr, job_gres_list := g \<rparr>) k st))
      else sc_new_step_record r = None \<and>
           (\<exists>st. step_id st = sid \<and>
              sc_job r = Some (snd (delete_step_record (store_step j k st) sid))))"

text \<open>Two states of a job with the same registry and the same accounting.\<close>

definition same_registry :: "'g job_record \<Rightarrow> 'g job_record \<Rightarrow> bool" where
  "same_registry j j' \<longleftrightarrow>
     step_list j' = step_list j \<and> job_resrcs j' = job_resrcs j \<and>
     job_gres_list j' = job_gres_list j \<and> next_step_id j' = next_step_id j"


definition ex_ctld_limits :: ctld where
  "ex_ctld_limits = ex_ctld \<lparr> enforce_part_limits := 1 \<rparr>"

definition ex_request_long :: job_step_create_request_msg where
  "ex_request_long = ex_request \<lparr> spec_time_limit := 500 \<rparr>"

text \<open>
  For the exclusive mode: the two task counts of the node at position \<open>n\<close> of the job
  (0 where the loop would read outside an array), and the nodes of a list whose bit is
  set in a bitmap.
\<close>

definition excl_avail_tasks ::
  "'g plugins \<Rightarrow> 'g job_record \<Rightarrow> job_step_create_request_msg \<Rightarrow> 'g option \<Rightarrow> int \<Rightarrow> int \<Rightarrow> int"
  where
  "excl_avail_tasks p j s g cpt n =
     (case excl_node_tasks p j s g cpt n of None \<Rightarrow> 0 | Some (a, t) \<Rightarrow> a)"

definition excl_total_tasks ::
  "'g plugins \<Rightarrow> 'g job_record \<Rightarrow> job_step_create_request_msg \<Rightarrow> 'g option \<Rightarrow> int \<Rightarrow> int \<Rightarrow> int"
  where
  "excl_total_tasks p j s g cpt n =
     (case excl_node_tasks p j s g cpt n of None \<Rightarrow> 0 | Some (a, t) \<Rightarrow> t)"

definition nodes_in :: "bitstr \<Rightarrow> (int \<times> int) list \<Rightarrow> (int \<times> int) list" where
  "nodes_in bm ps = filter (\<lambda>(i, n). bit_test bm i) ps"

text \<open>
  A job of two nodes of four processors, node 0 fully in use; requests in exclusive mode
  that name node 0: for sixteen tasks, and for two tasks on the job \<open>ex_job\<close>.
\<close>

definition ex_job_n0_busy :: "nat job_record" where
  "ex_job_n0_busy = ex_job \<lparr> job_resrcs := ex_resrcs \<lparr> cpus_used := [4, 0] \<rparr> \<rparr>"

definition ex_request_x16 :: job_step_create_request_msg where
  "ex_request_x16 = ex_request \<lparr> spec_exclusive := 1, spec_node_list := Some ''n0'',
     spec_num_tasks := 16, spec_cpu_count := 16, spec_min_nodes := 1, spec_max_nodes := 0,
     spec_mem_per_cpu := 0 \<rparr>"

definition ex_request_x2 :: job_step_create_request_msg where
  "ex_request_x2 = ex_request \<lparr> spec_exclusive := 1, spec_node_list := Some ''n0'',
     spec_num_tasks := 2, spec_cpu_count := 2, spec_min_nodes := 1, spec_max_nodes := 0,
     spec_mem_per_cpu := 0 \<rparr>"

definition ex_request_x4 :: job_step_create_request_msg where
  "ex_request_x4 = ex_request \<lparr> spec_exclusive := 1, spec_mem_per_cpu := 0 \<rparr>"

section \<open>Verification\<close>

subsection \<open>Machine arithmetic\<close>

lemma c_int_id: "0 \<le> x \<Longrightarrow> x < 2 ^ 31 \<Longrightarrow> c_int x = x"
  unfolding c_int_def by (simp add: signed_take_bit_int_eq_self)


subsection \<open>Credits never wrap\<close>











subsection \<open>The registry and step completion\<close>



lemma remove_step_None: "remove_step sid ss = None \<longleftrightarrow> sid \<notin> step_id ` set ss"
  by (induction ss) (auto split: option.splits)







subsection \<open>Partial completion\<close>

lemma find_step_from_bound:
  "find_step_from sid ss n = Some m \<Longrightarrow> n \<le> m \<and> m - n < length ss"
proof (induction ss arbitrary: n)
  case Nil
  then show ?case by simp
next
  case (Cons s ss)
  then show ?case by (fastforce split: if_splits)
qed

lemma bit_test_nset:
  "bit_test (bit_nset b lo hi) i \<longleftrightarrow>
     bit_test b i \<or> (lo \<le> i \<and> i \<le> hi \<and> 0 \<le> i \<and> i < bit_size b)"
proof (cases "0 \<le> i \<and> i < int (length b)")
  case True
  then have "nat i < length b" by auto
  then have "[0..<length b] ! nat i = nat i" by simp
  with True show ?thesis unfolding bit_test_def bit_nset_def bit_size_def by auto
next
  case False
  then show ?thesis unfolding bit_test_def bit_nset_def bit_size_def by auto
qed

lemma u32_ge_int:
  assumes "0 \<le> n" "n < 2 ^ 31"
  shows "(x :: u32) \<ge> word_of_int n \<longleftrightarrow> n \<le> uint x"
proof -
  have "uint (word_of_int n :: u32) = n"
    using assms by (simp add: uint_word_of_int)
  then show ?thesis by (simp add: word_le_def)
qed

text \<open>
  C3. A partial-completion report for a step that is not a batch step, in a job that is
  not pending, from the job's owner or a SLURM user. With \<open>n\<close> the number of nodes of
  the step: the report is rejected with \<open>EINVAL\<close>, and nothing changes, when
  \<open>range_last < range_first\<close> or \<open>range_last \<ge> n\<close>. Otherwise the first report
  allocates \<open>exit_node_bitmap\<close> with \<open>n\<close> clear bits and sets \<open>exit_code\<close> to the
  report's code, a later report sets \<open>exit_code\<close> to the larger of the two; the bits
  \<open>range_first .. range_last\<close> are set, no other bit changes, and \<open>rem\<close> is the
  number of clear bits. (An exit bitmap that is there has one bit per node of the step.)
\<close>

theorem step_partial_comp_report:
  assumes np: "\<not> IS_JOB_PENDING j" and auth: "validate_slurm_user p uid \<or> uid = user_id j"
    and fnd: "find_step_record (Some j) (req_job_step_id req) = Some k"
    and nb: "batch_step (step_list j ! k) = 0"
    and sz: "bit_set_count (step_node_bitmap (step_list j ! k)) < 2 ^ 31"
    and inv: "\<forall>b. exit_node_bitmap (step_list j ! k) = Some b \<longrightarrow>
                bit_size b = bit_set_count (step_node_bitmap (step_list j ! k))"
  shows "let st = step_list j ! k;
             n = bit_set_count (step_node_bitmap st);
             b0 = (case exit_node_bitmap st of None \<Rightarrow> bit_alloc n | Some b \<Rightarrow> b);
             b1 = bit_nset b0 (uint (range_first req)) (uint (range_last req));
             ec = (case exit_node_bitmap st of
                     None \<Rightarrow> step_rc req
                   | Some b \<Rightarrow> max (exit_code st) (step_rc req));
             (ret, j', res, evs) = step_partial_comp c p (Some j) req uid
         in if range_last req < range_first req \<or> n \<le> uint (range_last req)
            then ret = EINVAL \<and> j' = Some j \<and> res = None
            else ret = SLURM_SUCCESS \<and> res = Some (bit_clear_count b1, ec) \<and>
                 bit_size b0 = n \<and>
                 (\<forall>i. bit_test b1 i \<longleftrightarrow>
                    bit_test b0 i \<or> (uint (range_first req) \<le> i \<and> i \<le> uint (range_last req))) \<and>
                 (\<exists>j1. j' = Some j1 \<and> length (step_list j1) = length (step_list j) \<and>
                    exit_node_bitmap (step_list j1 ! k) = Some b1 \<and>
                    exit_code (step_list j1 ! k) = ec \<and>
                    (\<forall>i. i \<noteq> k \<longrightarrow> step_list j1 ! i = step_list j ! i))"
proof -
  let ?st = "step_list j ! k"
  define n where "n = bit_set_count (step_node_bitmap ?st)"
  define b0 where "b0 = (case exit_node_bitmap ?st of None \<Rightarrow> bit_alloc n | Some b \<Rightarrow> b)"
  define b1 where "b1 = bit_nset b0 (uint (range_first req)) (uint (range_last req))"
  define ec where "ec = (case exit_node_bitmap ?st of
                     None \<Rightarrow> step_rc req
                   | Some b \<Rightarrow> max (exit_code ?st) (step_rc req))"
  have n0: "0 \<le> n" "n < 2 ^ 31" using sz by (auto simp: n_def bit_set_count_def)
  have nodes: "(case exit_node_bitmap ?st of None \<Rightarrow> bit_set_count (step_node_bitmap ?st)
                | Some b \<Rightarrow> bit_size b) = n"
    using inv by (auto simp: n_def split: option.splits)
  have b0n: "bit_size b0 = n"
    using inv n0 by (auto simp: b0_def n_def bit_alloc_def bit_size_def split: option.splits)
  have klen: "k < length (step_list j)"
    using fnd find_step_from_bound [of "req_job_step_id req" "step_list j" 0 k]
    by (simp add: find_step_record_def)
  have ge: "range_last req \<ge> word_of_int n \<longleftrightarrow> n \<le> uint (range_last req)"
    by (rule u32_ge_int [OF n0])
  obtain ret j' res evs where r: "step_partial_comp c p (Some j) req uid = (ret, j', res, evs)"
    by (cases "step_partial_comp c p (Some j) req uid") auto
  have "if range_last req < range_first req \<or> n \<le> uint (range_last req)
            then ret = EINVAL \<and> j' = Some j \<and> res = None
            else ret = SLURM_SUCCESS \<and> res = Some (bit_clear_count b1, ec) \<and>
                 bit_size b0 = n \<and>
                 (\<forall>i. bit_test b1 i \<longleftrightarrow>
                    bit_test b0 i \<or> (uint (range_first req) \<le> i \<and> i \<le> uint (range_last req))) \<and>
                 (\<exists>j1. j' = Some j1 \<and> length (step_list j1) = length (step_list j) \<and>
                    exit_node_bitmap (step_list j1 ! k) = Some b1 \<and>
                    exit_code (step_list j1 ! k) = ec \<and>
                    (\<forall>i. i \<noteq> k \<longrightarrow> step_list j1 ! i = step_list j ! i))"
  proof (cases "range_last req < range_first req \<or> n \<le> uint (range_last req)")
    case True
    have "step_partial_comp c p (Some j) req uid = (EINVAL, Some j, None, [])"
      using np auth fnd nb True
      by (auto simp: step_partial_comp_def Let_def nodes ge)
    with r True show ?thesis by simp
  next
    case False
    then have ord: "range_first req \<le> range_last req" "uint (range_last req) < n" by auto
    then have fl: "uint (range_first req) \<le> uint (range_last req)" by (simp add: word_le_def)
    have cf: "c_int (uint (range_first req)) = uint (range_first req)"
      by (rule c_int_id) (use fl ord n0 in auto)
    have cl: "c_int (uint (range_last req)) = uint (range_last req)"
      by (rule c_int_id) (use ord n0 in auto)
    have bt: "\<forall>i. bit_test b1 i \<longleftrightarrow>
                    bit_test b0 i \<or> (uint (range_first req) \<le> i \<and> i \<le> uint (range_last req))"
      unfolding b1_def bit_test_nset b0n using ord
      by (auto intro: order_trans [OF uint_ge_0])
    have nge: "\<not> word_of_int n \<le> range_last req" "\<not> range_last req < range_first req"
      using False ge by auto
    have "ret = SLURM_SUCCESS \<and> res = Some (bit_clear_count b1, ec) \<and>
          (\<exists>j1. j' = Some j1 \<and> length (step_list j1) = length (step_list j) \<and>
                    exit_node_bitmap (step_list j1 ! k) = Some b1 \<and>
                    exit_code (step_list j1 ! k) = ec \<and>
                    (\<forall>i. i \<noteq> k \<longrightarrow> step_list j1 ! i = step_list j ! i))"
      using r np auth fnd nb nge klen
      by (auto simp: step_partial_comp_def Let_def nodes cf cl store_step_def b1_def b0_def
            ec_def n_def split: if_splits option.splits prod.splits)
    with bt b0n False show ?thesis by simp
  qed
  then show ?thesis
    unfolding Let_def n_def [symmetric] b0_def [symmetric] b1_def [symmetric]
      ec_def [symmetric] r by simp
qed


theorem step_partial_comp_report_witness:
  "step_partial_comp ex_ctld ex_plugins (Some ex_job_r1) ex_report2 0 =
     (SLURM_SUCCESS, Some ex_job_r2, Some (0, 7),
      [Switch_job_step_complete (Some ''n[0-1]'')]) \<and>
   (let st = step_list ex_job_r1 ! 0;
        n = bit_set_count (step_node_bitmap st);
        b0 = (case exit_node_bitmap st of None \<Rightarrow> bit_alloc n | Some b \<Rightarrow> b);
        b1 = bit_nset b0 (uint (range_first ex_report2)) (uint (range_last ex_report2));
        ec = (case exit_node_bitmap st of
                None \<Rightarrow> step_rc ex_report2
              | Some b \<Rightarrow> max (exit_code st) (step_rc ex_report2));
        (ret, j', res, evs) = step_partial_comp ex_ctld ex_plugins (Some ex_job_r1) ex_report2 0
    in n = 2 \<and> b0 = [True, False] \<and> b1 = [True, True] \<and> ec = 7 \<and>
       ret = SLURM_SUCCESS \<and> res = Some (bit_clear_count b1, ec))"
proof -
  have np: "\<not> IS_JOB_PENDING ex_job_r1" by code_simp
  have auth: "validate_slurm_user ex_plugins 0 \<or> 0 = user_id ex_job_r1" by code_simp
  have fnd: "find_step_record (Some ex_job_r1) (req_job_step_id ex_report2) = Some 0"
    by code_simp
  have nb: "batch_step (step_list ex_job_r1 ! 0) = 0" by code_simp
  have sz: "bit_set_count (step_node_bitmap (step_list ex_job_r1 ! 0)) < 2 ^ 31" by code_simp
  have inv: "\<forall>b. exit_node_bitmap (step_list ex_job_r1 ! 0) = Some b \<longrightarrow>
                bit_size b = bit_set_count (step_node_bitmap (step_list ex_job_r1 ! 0))"
    by (simp add: ex_job_r1_def ex_job_def ex_job0_def ex_step_def zero_step_def bit_size_def
          bit_set_count_def)
  have ev: "step_partial_comp ex_ctld ex_plugins (Some ex_job_r1) ex_report2 0 =
     (SLURM_SUCCESS, Some ex_job_r2, Some (0, 7),
      [Switch_job_step_complete (Some ''n[0-1]'')])" by code_simp
  have vals: "bit_set_count (step_node_bitmap (step_list ex_job_r1 ! 0)) = 2"
    "exit_node_bitmap (step_list ex_job_r1 ! 0) = Some [True, False]"
    "bit_nset [True, False] (uint (range_first ex_report2)) (uint (range_last ex_report2))
       = [True, True]"
    "max (exit_code (step_list ex_job_r1 ! 0)) (step_rc ex_report2) = 7"
    "\<not> (range_last ex_report2 < range_first ex_report2)"
    "uint (range_last ex_report2) = 1"
    by code_simp+
  from step_partial_comp_report [OF np auth fnd nb sz inv, of ex_ctld] ev vals
  show ?thesis by (simp add: Let_def)
qed

subsection \<open>The time-limit sweep\<close>

lemma hostlist_push_nodes_eq:
  "hostlist_push_nodes c bm is hl =
     hl @ map (\<lambda>i. node_name (node_record_table c ! nat i)) (filter (bit_test bm) is)"
  by (induction "is" arbitrary: hl) auto

lemma upto_map_upt: "[0..int n - 1] = map int [0..<n]"
proof (induction n)
  case 0
  then show ?case by simp
next
  case (Suc n)
  have "[0..int (Suc n) - 1] = [0..int n - 1] @ [int n]"
    using upto_rec2 [of 0 "int n"] by simp
  with Suc show ?case by simp
qed

lemma bitmap_hostlist_exact: "bitmap_hostlist c (step_node_bitmap s) = step_hosts c s"
proof -
  have "filter (\<lambda>n. bit_test (step_node_bitmap s) (int n)) [0..<length (node_record_table c)] =
        filter (\<lambda>n. n < length (step_node_bitmap s) \<and> step_node_bitmap s ! n)
          [0..<length (node_record_table c)]"
    by (rule filter_cong) (auto simp: bit_test_def)
  then show ?thesis
    by (simp add: bitmap_hostlist_def hostlist_push_nodes_eq node_record_count_def
          upto_map_upt filter_map comp_def step_hosts_def)
qed

lemma signal_step_timelimit_eq:
  assumes "have_front_end c \<longrightarrow> batch_host j \<noteq> None"
  shows "signal_step_timelimit c j s t =
           Some (if timelimit_hosts c j s = [] then [] else [timelimit_request c j s])"
  using assms
  by (auto simp: signal_step_timelimit_def timelimit_hosts_def timelimit_request_def Let_def
        bitmap_hostlist_exact split: option.splits)

lemma job_run_mins_minutes: "uint (job_run_mins s t) = run_minutes s t"
  by (simp add: job_run_mins_def run_minutes_def uint_word_of_int)

lemma step_timed_out_eq:
  "step_timed_out s t \<longleftrightarrow>
     time_limit s \<noteq> INFINITE \<and> time_limit s \<noteq> NO_VAL \<and> job_run_mins s t \<ge> time_limit s"
  by (simp add: step_timed_out_def INFINITE_def NO_VAL_def word_le_def job_run_mins_minutes)

lemma check_steps_eq:
  assumes "have_front_end c \<longrightarrow> batch_host j \<noteq> None"
  shows "check_steps c j t ss =
           Some (map (timelimit_request c j)
                  (filter (\<lambda>s. step_timed_out s t \<and> timelimit_hosts c j s \<noteq> []) ss))"
proof (induction ss)
  case Nil
  then show ?case by simp
next
  case (Cons s ss)
  then show ?case
    using signal_step_timelimit_eq [OF assms, of s t]
    by (auto simp: step_timed_out_eq)
qed

lemma run_minutes_exact:
  assumes "0 \<le> t - start_time s - tot_sus_time s"
    and "(t - start_time s - tot_sus_time s) div 60 < 2 ^ 32"
  shows "run_minutes s t = (t - start_time s - tot_sus_time s) div 60"
proof -
  let ?e = "t - start_time s - tot_sus_time s"
  have "?e sdiv 60 = ?e div 60" using assms(1) by (simp add: signed_divide_int_def sgn_if)
  moreover have "0 \<le> ?e div 60" using assms(1) by simp
  ultimately show ?thesis using assms(2)
    unfolding run_minutes_def by simp
qed

text \<open>
  C9. The time-limit sweep leaves the job and its step records as they are. For a job
  whose state is not \<open>JOB_RUNNING\<close> it queues nothing. For a running job it queues, in
  the order of the registry, exactly one TIMELIMIT request, with the job id and the step
  id, for every step whose time limit is neither \<open>INFINITE\<close> nor \<open>NO_VAL\<close>, whose minutes
  of run time \<open>(now - start_time - tot_sus_time) / 60\<close>, held in 32 bits, have reached
  the limit, and whose host list is not empty. The host list is \<open>timelimit_hosts\<close>:
  without a front end the names of exactly the nodes of \<open>step_node_bitmap\<close>, in the order
  of the node table (so a step without nodes gets no request); with a front end the
  job's \<open>batch_host\<close>. While the run time is not negative and below 2^32 minutes the 32
  bits hold the quotient itself.
\<close>

theorem check_job_step_time_limit_sweep:
  fixes j :: "'g job_record"
  assumes fe: "have_front_end c \<longrightarrow> batch_host j \<noteq> None"
  shows "check_job_step_time_limit c j t =
           Some (j, if job_state j \<noteq> 1 then []
                    else map (\<lambda>s. Agent_queue_request REQUEST_KILL_TIMELIMIT
                                     (if have_front_end c then [the (batch_host j)]
                                      else step_hosts c s)
                                     (job_id j) (step_id s))
                           (filter (\<lambda>s. step_timed_out s t \<and>
                                         (have_front_end c \<or> step_hosts c s \<noteq> []))
                              (step_list j))) \<and>
         (\<forall>s :: 'g step_record. 0 \<le> t - start_time s - tot_sus_time s \<and>
               (t - start_time s - tot_sus_time s) div 60 < 2 ^ 32 \<longrightarrow>
               (step_timed_out s t \<longleftrightarrow>
                  time_limit s \<noteq> INFINITE \<and> time_limit s \<noteq> NO_VAL \<and>
                  uint (time_limit s) \<le> (t - start_time s - tot_sus_time s) div 60))"
proof (intro conjI allI impI)
  have hosts: "timelimit_hosts c j s =
                 (if have_front_end c then [the (batch_host j)] else step_hosts c s)"
    for s :: "'g step_record"
    using fe by (auto simp: timelimit_hosts_def)
  have ne: "timelimit_hosts c j s \<noteq> [] \<longleftrightarrow> have_front_end c \<or> step_hosts c s \<noteq> []"
    for s :: "'g step_record"
    by (simp add: hosts)
  show "check_job_step_time_limit c j t =
           Some (j, if job_state j \<noteq> 1 then []
                    else map (\<lambda>s. Agent_queue_request REQUEST_KILL_TIMELIMIT
                                     (if have_front_end c then [the (batch_host j)]
                                      else step_hosts c s)
                                     (job_id j) (step_id s))
                           (filter (\<lambda>s. step_timed_out s t \<and>
                                         (have_front_end c \<or> step_hosts c s \<noteq> []))
                              (step_list j)))"
  proof -
    have m: "timelimit_request c j =
               (\<lambda>s. Agent_queue_request REQUEST_KILL_TIMELIMIT
                      (if have_front_end c then [the (batch_host j)] else step_hosts c s)
                      (job_id j) (step_id s))"
      by (rule ext) (simp add: timelimit_request_def hosts)
    have f: "(\<lambda>s. step_timed_out s t \<and> timelimit_hosts c j s \<noteq> []) =
             (\<lambda>s. step_timed_out s t \<and> (have_front_end c \<or> step_hosts c s \<noteq> []))"
      by (rule ext) (simp add: ne)
    show ?thesis
      unfolding check_job_step_time_limit_def check_steps_eq [OF fe] m f
      by (simp add: JOB_RUNNING_def)
  qed
next
  fix s :: "'g step_record"
  assume "0 \<le> t - start_time s - tot_sus_time s \<and>
               (t - start_time s - tot_sus_time s) div 60 < 2 ^ 32"
  then have "run_minutes s t = (t - start_time s - tot_sus_time s) div 60"
    using run_minutes_exact by blast
  then show "step_timed_out s t \<longleftrightarrow>
                  time_limit s \<noteq> INFINITE \<and> time_limit s \<noteq> NO_VAL \<and>
                  uint (time_limit s) \<le> (t - start_time s - tot_sus_time s) div 60"
    by (simp add: step_timed_out_def INFINITE_def NO_VAL_def)
qed

theorem check_job_step_time_limit_sweep_witness:
  "check_job_step_time_limit ex_ctld ex_job 1061 =
     Some (ex_job, [Agent_queue_request REQUEST_KILL_TIMELIMIT [''n0'', ''n1''] 7 0]) \<and>
   check_job_step_time_limit ex_ctld ex_job 1059 = Some (ex_job, []) \<and>
   check_job_step_time_limit ex_ctld ex_job_nodeless 1061 = Some (ex_job_nodeless, [])"
proof -
  have fe: "have_front_end ex_ctld \<longrightarrow> batch_host j \<noteq> None" for j :: "nat job_record"
    by (simp add: ex_ctld_def)
  have ev: "(if job_state ex_job \<noteq> 1 then []
             else map (\<lambda>s. Agent_queue_request REQUEST_KILL_TIMELIMIT
                              (if have_front_end ex_ctld then [the (batch_host ex_job)]
                               else step_hosts ex_ctld s)
                              (job_id ex_job) (step_id s))
                    (filter (\<lambda>s. step_timed_out s 1061 \<and>
                                  (have_front_end ex_ctld \<or> step_hosts ex_ctld s \<noteq> []))
                       (step_list ex_job))) =
            [Agent_queue_request REQUEST_KILL_TIMELIMIT [''n0'', ''n1''] 7 0]"
    by code_simp
  have ev': "(if job_state ex_job \<noteq> 1 then []
             else map (\<lambda>s. Agent_queue_request REQUEST_KILL_TIMELIMIT
                              (if have_front_end ex_ctld then [the (batch_host ex_job)]
                               else step_hosts ex_ctld s)
                              (job_id ex_job) (step_id s))
                    (filter (\<lambda>s. step_timed_out s 1059 \<and>
                                  (have_front_end ex_ctld \<or> step_hosts ex_ctld s \<noteq> []))
                       (step_list ex_job))) = []"
    by code_simp
  have ev'': "(if job_state ex_job_nodeless \<noteq> 1 then []
             else map (\<lambda>s. Agent_queue_request REQUEST_KILL_TIMELIMIT
                              (if have_front_end ex_ctld then [the (batch_host ex_job_nodeless)]
                               else step_hosts ex_ctld s)
                              (job_id ex_job_nodeless) (step_id s))
                    (filter (\<lambda>s. step_timed_out s 1061 \<and>
                                  (have_front_end ex_ctld \<or> step_hosts ex_ctld s \<noteq> []))
                       (step_list ex_job_nodeless))) = []"
    by code_simp
  from check_job_step_time_limit_sweep [OF fe, of ex_job 1061, THEN conjunct1]
    check_job_step_time_limit_sweep [OF fe, of ex_job 1059, THEN conjunct1]
    check_job_step_time_limit_sweep [OF fe, of ex_job_nodeless 1061, THEN conjunct1]
  show ?thesis unfolding ev ev' ev'' by simp
qed
subsection \<open>The core picker\<close>

lemma c_int_high_neg:
  assumes "2 ^ 31 \<le> x" and "x < 2 ^ 32"
  shows "c_int x < 0"
proof -
  have "signed_take_bit 31 x \<le> x - 2 ^ Suc 31"
    by (rule signed_take_bit_int_less_eq) (use assms in simp)
  moreover have "(2 :: int) ^ Suc 31 = 2 ^ 32" by simp
  ultimately show ?thesis unfolding c_int_def using assms(2) by linarith
qed


lemma length_bit_set [simp]: "length (bit_set b i) = length b"
  by (simp add: bit_set_def)
















subsection \<open>The node picker leaves the task and processor counts of the request\<close>

lemma same_counts_refl: "same_counts s s"
  by (simp add: same_counts_def)

lemma same_counts_trans: "same_counts a b \<Longrightarrow> same_counts b c \<Longrightarrow> same_counts a c"
  by (simp add: same_counts_def)

lemma usable_node_spec:
  "usable_node p j s g cpt i n st = Some (Inl r) \<Longrightarrow> snd (snd r) = s"
  unfolding usable_node_def Let_def
  by (auto split: if_splits option.splits)

lemma usable_nodes_spec:
  "usable_nodes p j s g cpt ps st = Some (Inl r) \<Longrightarrow> snd (snd r) = s"
proof (induction ps arbitrary: st)
  case Nil
  then show ?case by simp
next
  case (Cons a ps)
  obtain i n where a: "a = (i, n)" by (cases a)
  from Cons.prems Cons.IH show ?case
    unfolding a
    by (auto split: if_splits option.splits sum.splits dest: usable_node_spec)
qed

lemma pick_exclusive_spec:
  "pick_exclusive c p j jb s g cpt na = Some r \<Longrightarrow> snd (snd r) = s"
  unfolding pick_exclusive_def Let_def
  by (auto split: if_splits option.splits sum.splits)

lemma cleanup_spec: "snd (snd (cleanup l)) = pl_spec l"
  by (simp add: cleanup_def)

lemma pick_relative_counts:
  "(pick_relative j l = Inl r \<longrightarrow> same_counts (pl_spec l) (snd (snd r))) \<and>
   (pick_relative j l = Inr l' \<longrightarrow> same_counts (pl_spec l) (pl_spec l'))"
  unfolding pick_relative_def Let_def
  by (auto split: if_splits option.splits simp: cleanup_def same_counts_def)

lemma pick_cpus_to_nodes_counts:
  "(pick_cpus_to_nodes j l = Some (Inl r) \<longrightarrow> same_counts (pl_spec l) (snd (snd r))) \<and>
   (pick_cpus_to_nodes j l = Some (Inr l') \<longrightarrow> same_counts (pl_spec l) (pl_spec l'))"
  unfolding pick_cpus_to_nodes_def Let_def
  by (auto split: if_splits option.splits simp: cleanup_def same_counts_def)

lemma add_node_counts:
  "add_node c j jb l = Some x \<Longrightarrow> same_counts (pl_spec l) (pl_spec (case x of Inl a \<Rightarrow> a | Inr a \<Rightarrow> a))"
  unfolding add_node_def Let_def
  by (auto split: if_splits option.splits simp: same_counts_def)

lemma add_nodes_counts:
  "add_nodes c j jb l = Some l' \<Longrightarrow> same_counts (pl_spec l) (pl_spec l')"
proof (induction c j jb l rule: add_nodes.induct)
  case (1 c job_ptr job_bitmap l)
  from "1.prems" obtain x where x: "add_node c job_ptr job_bitmap l = Some x"
    by (subst (asm) add_nodes.simps) (auto split: option.splits)
  show ?case
  proof (cases x)
    case (Inl l1)
    with "1.prems" x have "l' = l1"
      by (subst (asm) add_nodes.simps) simp
    with add_node_counts [OF x] Inl show ?thesis by simp
  next
    case (Inr l1)
    with "1.prems" x have "add_nodes c job_ptr job_bitmap l1 = Some l'"
      by (subst (asm) add_nodes.simps) simp
    from "1.IH" [OF x Inr this] add_node_counts [OF x] Inr
    show ?thesis by (auto intro: same_counts_trans)
  qed
qed

lemma pick_node_list_counts:
  "case pick_node_list c p jb l of
     Inl r \<Rightarrow> same_counts (pl_spec l) (snd (snd r))
   | Inr l' \<Rightarrow> same_counts (pl_spec l) (pl_spec l')"
  by (simp add: pick_node_list_def Let_def cleanup_def same_counts_def
           split: option.split prod.split)

lemma pick_min_nodes_counts:
  "case pick_min_nodes c jb l of
     None \<Rightarrow> True
   | Some (Inl r) \<Rightarrow> same_counts (pl_spec l) (snd (snd r))
   | Some (Inr l') \<Rightarrow> same_counts (pl_spec l) (pl_spec l')"
  by (simp add: pick_min_nodes_def Let_def cleanup_def same_counts_def
           split: option.split sum.split)

lemma pick_cpu_count_counts:
  "case pick_cpu_count c j jb l of
     None \<Rightarrow> True
   | Some (Inl r) \<Rightarrow> same_counts (pl_spec l) (snd (snd r))
   | Some (Inr l') \<Rightarrow> same_counts (pl_spec l) (pl_spec l')"
proof -
  have *: "spec_num_tasks (pl_spec l2) = spec_num_tasks (pl_spec l1) \<and>
           spec_cpu_count (pl_spec l2) = spec_cpu_count (pl_spec l1)"
    if "add_nodes c j jb l1 = Some l2" for l1 l2
    using add_nodes_counts [OF that] by (simp add: same_counts_def)
  show ?thesis
    unfolding pick_cpu_count_def Let_def
    by (auto split: option.split simp: cleanup_def same_counts_def dest!: *)
qed

lemma stage_pl:
  assumes "stage r k = Some res"
    and "same_counts s (pl_spec l)"
    and "case r of None \<Rightarrow> True
         | Some (Inl x) \<Rightarrow> same_counts (pl_spec l) (snd (snd x))
         | Some (Inr l') \<Rightarrow> same_counts (pl_spec l) (pl_spec l')"
    and "\<And>l'. same_counts s (pl_spec l') \<Longrightarrow> k l' = Some res
           \<Longrightarrow> same_counts s (snd (snd res))"
  shows "same_counts s (snd (snd res))"
  using assms unfolding stage_def
  by (auto split: option.splits sum.splits intro: same_counts_trans)

lemma pick_general_counts:
  assumes "pick_general c p j jb s g cpt na = Some res"
  shows "same_counts s (snd (snd res))"
proof -
  have s5: "same_counts s (snd (snd res))"
    if "same_counts s (pl_spec l5)"
      and "stage (pick_cpu_count c j jb l5)
             (\<lambda>l6. Some (pl_nodes_picked l6, SLURM_SUCCESS, pl_spec l6)) = Some res" for l5
    by (rule stage_pl [OF that(2) that(1) pick_cpu_count_counts]) auto
  have s4: "same_counts s (snd (snd res))"
    if "same_counts s (pl_spec l4)"
      and "stage (pick_min_nodes c jb l4)
             (\<lambda>l5. stage (pick_cpu_count c j jb l5)
                (\<lambda>l6. Some (pl_nodes_picked l6, SLURM_SUCCESS, pl_spec l6))) = Some res" for l4
    by (rule stage_pl [OF that(2) that(1) pick_min_nodes_counts]) (rule s5)
  have s3: "same_counts s (snd (snd res))"
    if "same_counts s (pl_spec l3)"
      and "stage (pick_cpus_to_nodes j l3)
             (\<lambda>l4. stage (pick_min_nodes c jb l4)
               (\<lambda>l5. stage (pick_cpu_count c j jb l5)
                  (\<lambda>l6. Some (pl_nodes_picked l6, SLURM_SUCCESS, pl_spec l6)))) = Some res"
    for l3
    by (rule stage_pl [OF that(2) that(1)])
       (use pick_cpus_to_nodes_counts [where l = l3 and j = j] in \<open>auto split: option.splits sum.splits\<close>,
        rule s4)
  have s2: "same_counts s (snd (snd res))"
    if "same_counts s (pl_spec l2)"
      and "stage (Some (pick_relative j l2))
             (\<lambda>l3. stage (pick_cpus_to_nodes j l3)
               (\<lambda>l4. stage (pick_min_nodes c jb l4)
                 (\<lambda>l5. stage (pick_cpu_count c j jb l5)
                    (\<lambda>l6. Some (pl_nodes_picked l6, SLURM_SUCCESS, pl_spec l6))))) = Some res"
    for l2
    by (rule stage_pl [OF that(2) that(1)])
       (use pick_relative_counts [where l = l2 and j = j] in \<open>auto split: sum.splits\<close>, rule s3)
  have s1: "same_counts s (snd (snd res))"
    if "same_counts s (pl_spec l1)"
      and "stage (Some (pick_node_list c p jb l1))
            (\<lambda>l2. stage (Some (pick_relative j l2))
             (\<lambda>l3. stage (pick_cpus_to_nodes j l3)
               (\<lambda>l4. stage (pick_min_nodes c jb l4)
                 (\<lambda>l5. stage (pick_cpu_count c j jb l5)
                    (\<lambda>l6. Some (pl_nodes_picked l6, SLURM_SUCCESS, pl_spec l6)))))) = Some res"
    for l1
    by (rule stage_pl [OF that(2) that(1)])
       (use pick_node_list_counts [where l = l1 and c = c and p = p and jb = jb] in simp, rule s2)
  define l0 where "l0 = \<lparr> pl_spec = s, pl_nodes_avail = na, pl_nodes_idle = None,
                 pl_nodes_picked = None, pl_usable_cpu_cnt = None, pl_mem_blocked_nodes = 0,
                 pl_mem_blocked_cpus = 0, pl_return_code = SLURM_SUCCESS,
                 pl_nodes_picked_cnt = 0, pl_cpus_picked_cnt = 0 \<rparr>"
  have l0: "same_counts s (pl_spec l0)" by (simp add: l0_def same_counts_def)
  show ?thesis
  proof (rule stage_pl [OF assms [unfolded pick_general_def Let_def, folded l0_def] l0])
    show "case (if (spec_mem_per_cpu s \<noteq> 0 \<and> is_mem_resv c) \<or> spec_gres s \<noteq> None
           then
             (case usable_nodes p j s g cpt (job_nodes (job_resrcs j))
                     \<lparr> us_nodes_avail = na,
                       us_usable_cpu_cnt = replicate (nat (node_record_count c)) 0,
                       us_fail_mode = ESLURM_INVALID_TASK_MEMORY,
                       us_mem_blocked_nodes = 0, us_mem_blocked_cpus = 0 \<rparr> of
                None \<Rightarrow> None
              | Some (Inl r) \<Rightarrow> Some (Inl r)
              | Some (Inr sa) \<Rightarrow>
                  Some (Inr (l0 \<lparr> pl_nodes_avail := us_nodes_avail sa,
                                   pl_usable_cpu_cnt := Some (us_usable_cpu_cnt sa),
                                   pl_mem_blocked_nodes := us_mem_blocked_nodes sa,
                                   pl_mem_blocked_cpus := us_mem_blocked_cpus sa \<rparr>)))
           else Some (Inr l0)) of
         None \<Rightarrow> True
       | Some (Inl x) \<Rightarrow> same_counts (pl_spec l0) (snd (snd x))
       | Some (Inr l') \<Rightarrow> same_counts (pl_spec l0) (pl_spec l')"
      by (auto split: option.splits sum.splits simp: same_counts_def l0_def
               dest: usable_nodes_spec)
  next
    fix l'
    assume "same_counts s (pl_spec l')"
      and "(if spec_min_nodes s = INFINITE
             then Some (Some (pl_nodes_avail l'), SLURM_SUCCESS, s)
             else
               stage (Some (pick_node_list c p jb l'))
                 (\<lambda>l2. stage (Some (pick_relative j l2))
                   (\<lambda>l3. stage (pick_cpus_to_nodes j l3)
                     (\<lambda>l4. stage (pick_min_nodes c jb l4)
                       (\<lambda>l5. stage (pick_cpu_count c j jb l5)
                         (\<lambda>l6. Some (pl_nodes_picked l6, SLURM_SUCCESS, pl_spec l6))))))) =
           Some res"
    then show "same_counts s (snd (snd res))"
      using s1 [of l'] by (auto split: if_splits simp: same_counts_def)
  qed
qed

lemma pick_step_nodes_counts:
  assumes "pick_step_nodes c p j s g cpt = Some ((bm, e, s'), j')"
  shows "same_counts s s'"
proof -
  have "same_counts s (snd (snd (bm, e, s')))"
    using assms pick_general_counts pick_exclusive_spec
    unfolding pick_step_nodes_def Let_def
    by (fastforce split: option.splits if_splits sum.splits prod.splits
                  simp: same_counts_def)
  then show ?thesis by simp
qed


section \<open>Normalising a request\<close>

lemma u32_mod_dvd:
  "(a :: u32) mod b = 0 \<longleftrightarrow> uint a mod uint b = 0"
  unfolding word_uint_eq_iff uint_mod by simp

lemma normalize_overcommit_num_tasks:
  "spec_num_tasks (normalize_overcommit s) = spec_num_tasks s"
  by (simp add: normalize_overcommit_def)

lemma derive_cpus_per_task_eq:
  "derive_cpus_per_task s =
     (if spec_cpu_count s \<noteq> 0 \<and> uint (spec_cpu_count s) mod uint (spec_num_tasks s) = 0
      then (if uint (spec_cpu_count s) div uint (spec_num_tasks s) < 2 ^ 31
            then uint (spec_cpu_count s) div uint (spec_num_tasks s) else 1)
      else 0)"
proof -
  let ?q = "uint (spec_cpu_count s) div uint (spec_num_tasks s)"
  have q: "uint (spec_cpu_count s div spec_num_tasks s) = ?q"
    by (simp add: uint_div)
  have q0: "0 \<le> ?q" by (simp add: div_int_pos_iff)
  have q32: "?q < 2 ^ 32"
    using uint_lt2p [of "spec_cpu_count s div spec_num_tasks s"] unfolding q by simp
  show ?thesis
  proof (cases "spec_cpu_count s \<noteq> 0 \<and> uint (spec_cpu_count s) mod uint (spec_num_tasks s) = 0")
    case False
    then show ?thesis by (auto simp: derive_cpus_per_task_def u32_mod_dvd)
  next
    case True
    then have nz: "uint (spec_num_tasks s) \<noteq> 0" and c0: "0 < uint (spec_cpu_count s)"
      by (auto simp: word_greater_zero_iff [symmetric] word_less_def intro: ccontr)
    from True nz c0 have "uint (spec_num_tasks s) \<le> uint (spec_cpu_count s)"
      by (metis dvd_imp_le_int dvd_eq_mod_eq_0 abs_of_nonneg uint_ge_0 less_irrefl
            order_le_less)
    with nz have q1: "1 \<le> ?q"
      by (metis div_by_1 int_one_le_iff_zero_less not_less_iff_gr_or_eq
            pos_imp_zdiv_pos_iff uint_ge_0 order_le_less zdiv_mono1)
    show ?thesis
    proof (cases "?q < 2 ^ 31")
      case small: True
      with q0 have "c_int ?q = ?q" by (rule c_int_id)
      with True small q1 show ?thesis
        by (simp add: derive_cpus_per_task_def u32_mod_dvd Let_def q)
    next
      case big: False
      with q32 have "c_int ?q < 0" by (intro c_int_high_neg) auto
      with True big show ?thesis
        by (simp add: derive_cpus_per_task_def u32_mod_dvd Let_def q)
    qed
  qed
qed

text \<open>
  C7. The normalisation of \<open>step_create\<close> refuses a task count below one with
  \<open>ESLURM_BAD_TASK_COUNT\<close>. Otherwise it goes on with a request whose task count is
  unchanged: with overcommit and exclusive both set, overcommit is cleared and
  \<open>cpu_count\<close> becomes \<open>num_tasks\<close>; with overcommit alone, \<open>cpu_count\<close> becomes 0;
  without overcommit \<open>cpu_count\<close> stays. Then \<open>cpus_per_task\<close> is 0 when
  \<open>cpu_count\<close> is 0 or \<open>num_tasks\<close> does not divide it, and otherwise the quotient
  \<open>cpu_count / num_tasks\<close> if it is below 2^31, and 1 if it is not (the quotient is
  stored in an \<open>int\<close> and a value below 1 is replaced by 1).
\<close>

theorem step_normalize_request:
  "(spec_num_tasks s < 1 \<longrightarrow> step_normalize s = Inl ESLURM_BAD_TASK_COUNT) \<and>
   (1 \<le> spec_num_tasks s \<longrightarrow>
      (\<exists>s' cpt. step_normalize s = Inr (s', cpt) \<and>
         spec_num_tasks s' = spec_num_tasks s \<and>
         (spec_overcommit s \<noteq> 0 \<and> spec_exclusive s \<noteq> 0 \<longrightarrow>
            spec_overcommit s' = 0 \<and> spec_cpu_count s' = spec_num_tasks s) \<and>
         (spec_overcommit s \<noteq> 0 \<and> spec_exclusive s = 0 \<longrightarrow>
            spec_overcommit s' = spec_overcommit s \<and> spec_cpu_count s' = 0) \<and>
         (spec_overcommit s = 0 \<longrightarrow> spec_overcommit s' = 0 \<and> spec_cpu_count s' = spec_cpu_count s) \<and>
         cpt = (if spec_cpu_count s' \<noteq> 0 \<and>
                   uint (spec_cpu_count s') mod uint (spec_num_tasks s') = 0
                then (if uint (spec_cpu_count s') div uint (spec_num_tasks s') < 2 ^ 31
                      then uint (spec_cpu_count s') div uint (spec_num_tasks s') else 1)
                else 0)))"
proof (intro conjI impI)
  assume "spec_num_tasks s < 1"
  then show "step_normalize s = Inl ESLURM_BAD_TASK_COUNT"
    by (simp add: step_normalize_def Let_def normalize_overcommit_num_tasks)
next
  assume nt: "1 \<le> spec_num_tasks s"
  let ?s1 = "normalize_overcommit s"
  let ?s2 = "if spec_no_kill ?s1 > 1 then ?s1 \<lparr> spec_no_kill := 1 \<rparr> else ?s1"
  from nt have "spec_num_tasks s \<noteq> 0" by (auto simp: word_le_def)
  then have run: "step_normalize s = Inr (?s2, derive_cpus_per_task ?s1)"
    by (simp add: step_normalize_def Let_def normalize_overcommit_num_tasks)
  have f: "spec_num_tasks ?s2 = spec_num_tasks ?s1" "spec_cpu_count ?s2 = spec_cpu_count ?s1"
    "spec_overcommit ?s2 = spec_overcommit ?s1"
    by simp_all
  show "\<exists>s' cpt. step_normalize s = Inr (s', cpt) \<and>
         spec_num_tasks s' = spec_num_tasks s \<and>
         (spec_overcommit s \<noteq> 0 \<and> spec_exclusive s \<noteq> 0 \<longrightarrow>
            spec_overcommit s' = 0 \<and> spec_cpu_count s' = spec_num_tasks s) \<and>
         (spec_overcommit s \<noteq> 0 \<and> spec_exclusive s = 0 \<longrightarrow>
            spec_overcommit s' = spec_overcommit s \<and> spec_cpu_count s' = 0) \<and>
         (spec_overcommit s = 0 \<longrightarrow> spec_overcommit s' = 0 \<and> spec_cpu_count s' = spec_cpu_count s) \<and>
         cpt = (if spec_cpu_count s' \<noteq> 0 \<and>
                   uint (spec_cpu_count s') mod uint (spec_num_tasks s') = 0
                then (if uint (spec_cpu_count s') div uint (spec_num_tasks s') < 2 ^ 31
                      then uint (spec_cpu_count s') div uint (spec_num_tasks s') else 1)
                else 0)"
    apply (rule exI [of _ ?s2], rule exI [of _ "derive_cpus_per_task ?s1"])
    apply (intro conjI)
         apply (rule run)
        apply (simp add: normalize_overcommit_def)
       apply (simp add: normalize_overcommit_def)
      apply (simp add: normalize_overcommit_def)
     apply (simp add: normalize_overcommit_def)
    apply (simp only: f derive_cpus_per_task_eq)
    done
qed


theorem step_normalize_large_count_counterexample:
  "spec_overcommit ex_request_big = 0 \<and>
   spec_cpu_count ex_request_big \<noteq> 0 \<and>
   uint (spec_cpu_count ex_request_big) mod uint (spec_num_tasks ex_request_big) = 0 \<and>
   uint (spec_cpu_count ex_request_big) div uint (spec_num_tasks ex_request_big) = 2147483648 \<and>
   step_normalize ex_request_big = Inr (ex_request_big, 1)"
  by code_simp

theorem step_normalize_request_witness:
  "\<exists>s' cpt. step_normalize ex_request_oc = Inr (s', cpt) \<and>
      spec_num_tasks s' = 4 \<and> spec_overcommit s' = 0 \<and> spec_cpu_count s' = 4 \<and> cpt = 1"
proof -
  have nt: "1 \<le> spec_num_tasks ex_request_oc"
    and oc: "spec_overcommit ex_request_oc \<noteq> 0 \<and> spec_exclusive ex_request_oc \<noteq> 0"
    and n4: "spec_num_tasks ex_request_oc = 4"
    by (simp_all add: ex_request_oc_def ex_request_def)
  from step_normalize_request [of ex_request_oc] nt oc n4
  show ?thesis by fastforce
qed

section \<open>Creating a step\<close>

subsection \<open>The id of the record under construction\<close>

lemma pick_step_cores_id:
  "pick_step_cores p st jr n t lci = Some (st', jr', lci') \<Longrightarrow> step_id st' = step_id st"
  unfolding pick_step_cores_def pick_cores_passes_def Let_def
  by (auto split: option.splits if_splits prod.splits)

lemma alloc_node_id:
  "alloc_node c p jid lay pick jn sn s = Some s' \<Longrightarrow>
     step_id (as_step s') = step_id (as_step s)"
  unfolding alloc_node_def Let_def
  by (auto split: option.splits if_splits prod.splits dest: pick_step_cores_id)

lemma alloc_nodes_id:
  "alloc_nodes c p jid lay pick is jn sn s = Some s' \<Longrightarrow>
     step_id (as_step s') = step_id (as_step s)"
proof (induction "is" arbitrary: jn sn s)
  case Nil
  then show ?case by simp
next
  case (Cons i rest)
  from Cons.prems show ?case
    by (auto split: if_splits option.splits dest!: Cons.IH alloc_node_id)
qed

lemma step_alloc_lps_id:
  "step_alloc_lps c p j st lci = Some a \<Longrightarrow> step_id (as_step a) = step_id st"
  unfolding step_alloc_lps_def Let_def
  by (auto split: option.splits if_splits prod.splits dest!: alloc_nodes_id)

lemma step_layout_create_id:
  "step_layout_create c p j st nl nc nt cpt td ps = Some (lay, st') \<Longrightarrow>
     step_id st' = step_id st"
  unfolding step_layout_create_def Let_def
  by (auto split: option.splits if_splits sum.splits)

lemma default_resv_ports_counts:
  "default_resv_ports lay s = Some s' \<Longrightarrow> same_counts s s'"
  unfolding default_resv_ports_def
  by (auto split: if_splits simp: same_counts_def)


subsection \<open>What the construction of the record leaves\<close>

lemma create_rollback_outcome:
  assumes "create_rollback e j k st s' lci = Some r" and "e \<noteq> SLURM_SUCCESS"
    and "spec_num_tasks s' = spec_num_tasks s" and "step_id st = sid"
  shows "create_outcome j k sid s r"
  using assms unfolding create_rollback_def create_fail_def create_outcome_def
  by auto

lemma create_done_outcome:
  assumes "create_done p (j \<lparr> job_resrcs := jr, job_gres_list := g \<rparr>) k st s' lci = Some r"
    and "spec_num_tasks s' = spec_num_tasks s" and "step_id st = sid"
  shows "create_outcome j k sid s r"
proof -
  from assms(1) have r: "r = \<lparr> sc_rc = SLURM_SUCCESS,
       sc_job = Some (store_step (j \<lparr> job_resrcs := jr, job_gres_list := g \<rparr>) k
                        (st \<lparr> check_job := True \<rparr>)),
       sc_specs = s', sc_new_step_record = Some k, sc_last_core_inx = lci \<rparr>"
    by (auto simp: create_done_def split: if_splits)
  have "\<exists>st' jr' g'. step_id st' = sid \<and>
          Some (store_step (j \<lparr> job_resrcs := jr, job_gres_list := g \<rparr>) k
                  (st \<lparr> check_job := True \<rparr>)) =
          Some (store_step (j \<lparr> job_resrcs := jr', job_gres_list := g' \<rparr>) k st')"
    using assms(3) by (intro exI [of _ "st \<lparr> check_job := True \<rparr>"] exI [of _ jr] exI [of _ g]) simp
  then show ?thesis
    unfolding create_outcome_def r using assms(2) by simp
qed

lemma create_done_outcome_same:
  assumes "create_done p j k st s' lci = Some r"
    and "spec_num_tasks s' = spec_num_tasks s" and "step_id st = sid"
  shows "create_outcome j k sid s r"
proof -
  have "j \<lparr> job_resrcs := job_resrcs j, job_gres_list := job_gres_list j \<rparr> = j" by simp
  with assms(1)
  have "create_done p (j \<lparr> job_resrcs := job_resrcs j, job_gres_list := job_gres_list j \<rparr>)
          k st s' lci = Some r" by simp
  from create_done_outcome [OF this assms(2,3)] show ?thesis .
qed

lemma step_launch_info_outcome:
  assumes "step_launch_info c p j k st s nl cpt b lci = Some r"
  shows "create_outcome j k (step_id st) s r"
proof (cases b)
  case True
  with assms have "create_done p j k st s lci = Some r"
    by (simp add: step_launch_info_def)
  then show ?thesis by (rule create_done_outcome_same) simp_all
next
  case False
  with assms obtain lay_opt st1 where
    lc: "step_layout_create c p j st nl (spec_min_nodes s) (spec_num_tasks s) (word_of_int cpt)
           (spec_task_dist s) (ucast (spec_plane_size s)) = Some (lay_opt, st1)"
    by (auto simp: step_launch_info_def split: option.splits)
  from step_layout_create_id [OF lc] have id1: "step_id st1 = step_id st" .
  show ?thesis
  proof (cases lay_opt)
    case None
    with assms False lc
    have "create_rollback
            (if spec_mem_per_cpu s \<noteq> 0 then ESLURM_INVALID_TASK_MEMORY else SLURM_ERROR)
            j k (st1 \<lparr> step_layout := None \<rparr>) s lci = Some r"
      by (simp add: step_launch_info_def)
    then show ?thesis
      by (rule create_rollback_outcome) (simp_all add: id1)
  next
    case (Some lay)
    with assms False lc obtain spec1 where
      rp: "default_resv_ports lay s = Some spec1"
      by (cases "default_resv_ports lay s") (auto simp: step_launch_info_def Let_def)
    from default_resv_ports_counts [OF rp]
    have n1: "spec_num_tasks spec1 = spec_num_tasks s" by (simp add: same_counts_def)
    from assms False lc Some rp show ?thesis
      unfolding step_launch_info_def Let_def
      by (auto simp: id1 n1 split: if_splits option.splits
               elim!: create_rollback_outcome create_done_outcome
               dest!: step_alloc_lps_id)
  qed
qed

lemma create_outcome_spec:
  "create_outcome j k sid s' r \<Longrightarrow> spec_num_tasks s' = spec_num_tasks s
     \<Longrightarrow> create_outcome j k sid s r"
  by (auto simp: create_outcome_def)

lemma step_build_core:
  assumes "(if A then step_launch_info c p j k (st \<lparr> time_limit := t1 \<rparr>) s' nl cpt b lci
            else if B then create_rollback ESLURM_INVALID_TIME_LIMIT j k st s' lci
            else step_launch_info c p j k (st \<lparr> time_limit := t2 \<rparr>) s' nl cpt b lci) = Some r"
    and "step_id st = sid" and "spec_num_tasks s' = spec_num_tasks s"
  shows "create_outcome j k sid s r"
  using assms
  by (auto split: if_splits dest!: step_launch_info_outcome
           elim!: create_rollback_outcome create_outcome_spec)

lemma step_build_outcome:
  assumes "step_build c p j st0 s g cpt b occ ns lci = Some r"
  shows "create_outcome (j \<lparr> next_step_id := next_step_id j + 1 \<rparr>)
           (length (step_list j) - 1) (next_step_id j) s r"
  by (rule step_build_core [OF assms [unfolded step_build_def Let_def]]) simp_all


lemma pick_step_nodes_job:
  assumes "pick_step_nodes c p j s g cpt = Some (res, j')"
  shows "same_registry j j'"
  using assms unfolding pick_step_nodes_def pick_first_step_def Let_def same_registry_def
  by (auto split: option.splits if_splits sum.splits prod.splits)


subsection \<open>The ways through \<open>step_create\<close>\<close>

lemma same_registry_refl: "same_registry j j"
  by (simp add: same_registry_def)

lemma step_check_Inr: "step_check c (Some j) s = Inr jp \<Longrightarrow> jp = j"
  unfolding step_check_def by (simp split: if_splits)

lemma step_create_check_fail:
  "step_check c jo s = Inl e \<Longrightarrow> step_create c p jo s b lci = create_fail e jo s lci"
  by (simp add: step_create_def)

lemma step_create_normalize_fail:
  "step_check c jo s = Inr jp \<Longrightarrow> step_normalize s = Inl e \<Longrightarrow>
     step_create c p jo s b lci = create_fail e jo (normalize_overcommit s) lci"
  by (simp add: step_create_def)

lemma step_create_gres_fail:
  "step_check c jo s = Inr jp \<Longrightarrow> step_normalize s = Inr (s1, cpt) \<Longrightarrow>
   gres_plugin_step_state_validate p (spec_gres s1) (job_gres_list jp) (job_id jp) NO_VAL = (i, g)
   \<Longrightarrow> i \<noteq> SLURM_SUCCESS \<Longrightarrow>
     step_create c p jo s b lci = create_fail i jo s1 lci"
  by (simp add: step_create_def)

lemma step_create_pick_abort:
  "step_check c jo s = Inr jp \<Longrightarrow> step_normalize s = Inr (s1, cpt) \<Longrightarrow>
   gres_plugin_step_state_validate p (spec_gres s1) (job_gres_list jp) (job_id jp) NO_VAL =
     (SLURM_SUCCESS, g) \<Longrightarrow>
   pick_step_nodes c p (jp \<lparr> time_last_active := now c \<rparr>) s1 g cpt = None \<Longrightarrow>
     step_create c p jo s b lci = None"
  by (simp add: step_create_def)

lemma step_create_picked:
  "step_check c jo s = Inr jp \<Longrightarrow> step_normalize s = Inr (s1, cpt) \<Longrightarrow>
   gres_plugin_step_state_validate p (spec_gres s1) (job_gres_list jp) (job_id jp) NO_VAL =
     (SLURM_SUCCESS, g) \<Longrightarrow>
   pick_step_nodes c p (jp \<lparr> time_last_active := now c \<rparr>) s1 g cpt =
     Some ((bm, e, s2), j1) \<Longrightarrow>
     step_create c p jo s b lci =
       (case bm of
          None \<Rightarrow> create_fail e (Some j1) s2 lci
        | Some ns \<Rightarrow>
            (case step_task_count c s2 (bit_set_count ns) of
               Inl e' \<Rightarrow>
                 create_fail e' (Some j1) (default_num_tasks s2 (bit_set_count ns)) lci
             | Inr s3 \<Rightarrow>
                 (case create_step_record c j1 of
                    None \<Rightarrow> create_fail ESLURMD_TOOMANYSTEPS (Some j1) s3 lci
                  | Some (st0, j2) \<Rightarrow>
                      step_build c p j2 st0 s3 g cpt b (spec_cpu_count s) ns lci)))"
  by (simp add: step_create_def Let_def split: option.splits)

lemma create_step_record_Some:
  "create_step_record c j = Some (st0, j2) \<Longrightarrow>
     next_step_id j < 0xfffffff0 \<and> j2 = j \<lparr> step_list := step_list j @ [st0] \<rparr>"
  unfolding create_step_record_def Let_def
  by (auto split: if_splits simp: not_le)

lemma create_fail_shape:
  assumes "create_fail e (Some j') s' lci = Some r" and "same_registry j j'"
  shows "sc_new_step_record r = None \<and> (\<exists>j'. sc_job r = Some j' \<and> same_registry j j')"
  using assms by (auto simp: create_fail_def)

lemma step_create_shape:
  assumes run: "step_create c p (Some j) s b lci = Some r"
  shows "(sc_new_step_record r = None \<and> (\<exists>j'. sc_job r = Some j' \<and> same_registry j j')) \<or>
         (next_step_id j < 0xfffffff0 \<and>
          (\<exists>j1 st0 s3. same_registry j j1 \<and>
             create_outcome
               (j1 \<lparr> step_list := step_list j1 @ [st0], next_step_id := next_step_id j1 + 1 \<rparr>)
               (length (step_list j)) (next_step_id j) s3 r))"
proof (cases "step_check c (Some j) s")
  case (Inl e)
  from run [unfolded step_create_check_fail [OF Inl]] same_registry_refl
  show ?thesis by (intro disjI1 create_fail_shape)
next
  case (Inr jp)
  with step_check_Inr have chk: "step_check c (Some j) s = Inr j" by blast
  show ?thesis
  proof (cases "step_normalize s")
    case (Inl e)
    from run [unfolded step_create_normalize_fail [OF chk Inl]] same_registry_refl
    show ?thesis by (intro disjI1 create_fail_shape)
  next
    case (Inr x)
    then obtain s1 cpt where norm: "step_normalize s = Inr (s1, cpt)" by (cases x) auto
    obtain i g where
      val: "gres_plugin_step_state_validate p (spec_gres s1) (job_gres_list j) (job_id j) NO_VAL
              = (i, g)"
      by (cases "gres_plugin_step_state_validate p (spec_gres s1) (job_gres_list j) (job_id j)
                   NO_VAL")
    show ?thesis
    proof (cases "i = SLURM_SUCCESS")
      case False
      from run [unfolded step_create_gres_fail [OF chk norm val False]] same_registry_refl
      show ?thesis by (intro disjI1 create_fail_shape)
    next
      case True
      note val = val [unfolded True]
      show ?thesis
      proof (cases "pick_step_nodes c p (j \<lparr> time_last_active := now c \<rparr>) s1 g cpt")
        case None
        from run [unfolded step_create_pick_abort [OF chk norm val None]]
        show ?thesis by simp
      next
        case (Some y)
        then obtain bm e s2 j1 where
          pick: "pick_step_nodes c p (j \<lparr> time_last_active := now c \<rparr>) s1 g cpt =
                   Some ((bm, e, s2), j1)"
          by (cases y) auto
        from pick_step_nodes_job [OF pick] have reg: "same_registry j j1"
          by (simp add: same_registry_def)
        note run1 = run [unfolded step_create_picked [OF chk norm val pick]]
        show ?thesis
        proof (cases bm)
          case None
          with run1 have "create_fail e (Some j1) s2 lci = Some r" by simp
          from create_fail_shape [OF this reg] show ?thesis by (rule disjI1)
        next
          case (Some ns)
          show ?thesis
          proof (cases "step_task_count c s2 (bit_set_count ns)")
            case (Inl e')
            with run1 Some
            have "create_fail e' (Some j1) (default_num_tasks s2 (bit_set_count ns)) lci = Some r"
              by simp
            from create_fail_shape [OF this reg] show ?thesis by (rule disjI1)
          next
            case (Inr s3)
            show ?thesis
            proof (cases "create_step_record c j1")
              case None
              with run1 Some Inr
              have "create_fail ESLURMD_TOOMANYSTEPS (Some j1) s3 lci = Some r" by simp
              from create_fail_shape [OF this reg] show ?thesis by (rule disjI1)
            next
              case created: (Some z)
              then obtain st0 j2 where
                cr: "create_step_record c j1 = Some (st0, j2)" by (cases z) auto
              from create_step_record_Some [OF cr]
              have lt: "next_step_id j1 < 0xfffffff0"
                and j2: "j2 = j1 \<lparr> step_list := step_list j1 @ [st0] \<rparr>" by simp_all
              from run1 Some Inr cr
              have "step_build c p j2 st0 s3 g cpt b (spec_cpu_count s) ns lci = Some r"
                by simp
              from step_build_outcome [OF this]
              have "create_outcome
                      (j1 \<lparr> step_list := step_list j1 @ [st0],
                            next_step_id := next_step_id j1 + 1 \<rparr>)
                      (length (step_list j)) (next_step_id j) s3 r"
                using reg by (simp add: j2 same_registry_def)
              with lt reg show ?thesis
                by (auto simp: same_registry_def)
            qed
          qed
        qed
      qed
    qed
  qed
qed


lemma remove_step_append:
  "\<forall>x \<in> set ss. step_id x \<noteq> sid \<Longrightarrow> step_id st = sid \<Longrightarrow>
     remove_step sid (ss @ [st]) = Some ss"
  by (induction ss) auto

lemma rollback_restores:
  assumes "\<forall>x \<in> set (step_list j). step_id x \<noteq> sid" and "step_id st = sid"
  shows "snd (delete_step_record
                (store_step (j \<lparr> step_list := step_list j @ [st0] \<rparr>) (length (step_list j)) st)
                sid) = j"
  using remove_step_append [OF assms]
  by (simp add: delete_step_record_def store_step_def)


subsection \<open>The default of the task count\<close>

lemma step_normalize_counts:
  "step_normalize s = Inr (s1, cpt) \<Longrightarrow>
     spec_num_tasks s1 = spec_num_tasks s \<and>
     spec_cpu_count s1 = spec_cpu_count (normalize_overcommit s)"
  unfolding step_normalize_def Let_def
  by (auto split: if_splits simp: normalize_overcommit_def)

lemma task_cap_exact:
  assumes "0 \<le> n" and "n * uint m < 2 ^ 31"
  shows "(d :: u32) > word_of_int (c_int (n * uint m)) \<longleftrightarrow> n * uint m < uint d"
proof -
  have nn: "0 \<le> n * uint m" using assms(1) by simp
  then have "c_int (n * uint m) = n * uint m" using assms(2) by (rule c_int_id)
  moreover have "uint (word_of_int k :: u32) = k" if "0 \<le> k" "k < 2 ^ 31" for k
    using that by (simp add: uint_word_of_int)
  from this [OF nn assms(2)]
  have "uint (word_of_int (n * uint m) :: u32) = n * uint m" .
  ultimately show ?thesis by (simp only: word_less_def)
qed

lemma bit_set_count_nonneg: "0 \<le> bit_set_count b"
  by (simp add: bit_set_count_def)

text \<open>
  C10. A request whose task count is unset (\<open>NO_VAL\<close>) passes the checks and the
  normalisation with the count still unset, and the node picker leaves it so. Once the
  nodes \<open>ns\<close> are picked, the count becomes the request's \<open>cpu_count\<close> (as the
  normalisation left it) when that is set, and the number of picked nodes otherwise;
  only then is it held against the number of picked nodes times \<open>max_tasks_per_node\<close>
  (a product that fits an \<open>int\<close>): above it \<open>step_create\<close> returns
  \<open>ESLURM_BAD_TASK_COUNT\<close>, otherwise it goes on with the defaulted count, which is
  the count the caller finds in the request whatever \<open>step_create\<close> returns.
\<close>

theorem step_create_default_num_tasks:
  fixes jp :: "'g job_record"
  assumes chk: "step_check c jo s = Inr jp"
    and norm: "step_normalize s = Inr (s1, cpt)"
    and val: "gres_plugin_step_state_validate p (spec_gres s1) (job_gres_list jp) (job_id jp)
                NO_VAL = (SLURM_SUCCESS, g)"
    and pick: "pick_step_nodes c p (jp \<lparr> time_last_active := now c \<rparr>) s1 g cpt =
                 Some ((Some ns, e, s2), j1)"
    and unset: "spec_num_tasks s = NO_VAL"
    and fits: "bit_set_count ns * uint (max_tasks_per_node c) < 2 ^ 31"
  shows "let n = bit_set_count ns;
             cpu_cnt = spec_cpu_count (normalize_overcommit s);
             d = (if cpu_cnt \<noteq> NO_VAL then cpu_cnt else word_of_int n);
             s3 = s2 \<lparr> spec_num_tasks := d \<rparr>
         in
           step_create c p jo s b lci =
             (if n * uint (max_tasks_per_node c) < uint d
              then Some \<lparr> sc_rc = ESLURM_BAD_TASK_COUNT, sc_job = Some j1, sc_specs = s3,
                          sc_new_step_record = None, sc_last_core_inx = lci \<rparr>
              else
                (case create_step_record c j1 of
                   None \<Rightarrow>
                     Some \<lparr> sc_rc = ESLURMD_TOOMANYSTEPS, sc_job = Some j1, sc_specs = s3,
                            sc_new_step_record = None, sc_last_core_inx = lci \<rparr>
                 | Some (st0, j2) \<Rightarrow>
                     step_build c p j2 st0 s3 g cpt b (spec_cpu_count s) ns lci)) \<and>
           (\<forall>r. step_create c p jo s b lci = Some r \<longrightarrow> spec_num_tasks (sc_specs r) = d)"
proof -
  let ?n = "bit_set_count ns"
  define d where "d = (if spec_cpu_count (normalize_overcommit s) \<noteq> NO_VAL
                       then spec_cpu_count (normalize_overcommit s) else word_of_int ?n)"
  define s3 where "s3 = s2 \<lparr> spec_num_tasks := d \<rparr>"
  from pick_step_nodes_counts [OF pick] step_normalize_counts [OF norm] unset
  have s2: "spec_num_tasks s2 = NO_VAL"
    "spec_cpu_count s2 = spec_cpu_count (normalize_overcommit s)"
    by (simp_all add: same_counts_def)
  then have dflt: "default_num_tasks s2 ?n = s3"
    by (simp add: default_num_tasks_def s3_def d_def)
  have n3: "spec_num_tasks s3 = d" by (simp add: s3_def)
  have cap: "step_task_count c s2 ?n =
               (if ?n * uint (max_tasks_per_node c) < uint d then Inl ESLURM_BAD_TASK_COUNT
                else Inr s3)"
    unfolding step_task_count_def Let_def dflt n3
      task_cap_exact [OF bit_set_count_nonneg fits, of d]
    by simp
  have eq: "step_create c p jo s b lci =
             (if ?n * uint (max_tasks_per_node c) < uint d
              then Some \<lparr> sc_rc = ESLURM_BAD_TASK_COUNT, sc_job = Some j1, sc_specs = s3,
                          sc_new_step_record = None, sc_last_core_inx = lci \<rparr>
              else
                (case create_step_record c j1 of
                   None \<Rightarrow>
                     Some \<lparr> sc_rc = ESLURMD_TOOMANYSTEPS, sc_job = Some j1, sc_specs = s3,
                            sc_new_step_record = None, sc_last_core_inx = lci \<rparr>
                 | Some (st0, j2) \<Rightarrow>
                     step_build c p j2 st0 s3 g cpt b (spec_cpu_count s) ns lci))"
    unfolding step_create_picked [OF chk norm val pick]
    by (simp add: cap dflt create_fail_def split: option.splits)
  have res: "spec_num_tasks (sc_specs r) = d" if run: "step_create c p jo s b lci = Some r" for r
  proof (cases "?n * uint (max_tasks_per_node c) < uint d")
    case True
    with run eq show ?thesis by (auto simp: n3)
  next
    case False
    show ?thesis
    proof (cases "create_step_record c j1")
      case None
      with run eq False show ?thesis by (auto simp: n3)
    next
      case (Some z)
      then obtain st0 j2 where "create_step_record c j1 = Some (st0, j2)" by (cases z) auto
      with run eq False
      have "step_build c p j2 st0 s3 g cpt b (spec_cpu_count s) ns lci = Some r" by simp
      from step_build_outcome [OF this] show ?thesis
        by (simp add: create_outcome_def n3)
    qed
  qed
  from eq res show ?thesis
    unfolding Let_def d_def [symmetric] s3_def [symmetric] by blast
qed

theorem step_create_default_num_tasks_witness:
  "\<exists>r. step_create ex_ctld ex_plugins (Some ex_job) ex_request_unset False 0 = Some r \<and>
        sc_rc r = SLURM_SUCCESS \<and> spec_num_tasks (sc_specs r) = 4"
proof -
  have chk: "step_check ex_ctld (Some ex_job) ex_request_unset = Inr ex_job"
    by code_simp
  have norm: "step_normalize ex_request_unset = Inr (ex_request_unset, 0)"
    by code_simp
  have val: "gres_plugin_step_state_validate ex_plugins (spec_gres ex_request_unset)
               (job_gres_list ex_job) (job_id ex_job) NO_VAL = (SLURM_SUCCESS, None)"
    by code_simp
  have pick: "pick_step_nodes ex_ctld ex_plugins (ex_job \<lparr> time_last_active := now ex_ctld \<rparr>)
                ex_request_unset None 0 =
              Some ((Some [True, True], SLURM_SUCCESS, ex_request_unset),
                    ex_job \<lparr> time_last_active := 1000 \<rparr>)"
    by code_simp
  have unset: "spec_num_tasks ex_request_unset = NO_VAL"
    by code_simp
  have fits: "bit_set_count [True, True] * uint (max_tasks_per_node ex_ctld) < 2 ^ 31"
    by code_simp
  have d: "(if spec_cpu_count (normalize_overcommit ex_request_unset) \<noteq> NO_VAL
            then spec_cpu_count (normalize_overcommit ex_request_unset)
            else word_of_int (bit_set_count [True, True])) = 4"
    by code_simp
  have rc: "map_option sc_rc
              (step_create ex_ctld ex_plugins (Some ex_job) ex_request_unset False 0) =
            Some SLURM_SUCCESS"
    by code_simp
  then obtain r where
    run: "step_create ex_ctld ex_plugins (Some ex_job) ex_request_unset False 0 = Some r"
    and ok: "sc_rc r = SLURM_SUCCESS"
    by auto
  from step_create_default_num_tasks [OF chk norm val pick unset fits, of False 0,
         unfolded Let_def d, THEN conjunct2] run
  have "spec_num_tasks (sc_specs r) = 4" by blast
  with run ok show ?thesis by blast
qed


subsection \<open>Step ids\<close>





subsection \<open>Errors leave the registry and the accounting alone\<close>

text \<open>
  C1. When \<open>step_create\<close> returns an error for a job in whose registry no step has
  the id \<open>next_step_id\<close> (ids are handed out from that counter), it returns no step
  record and the job's step list, its resources (\<open>cpus_used\<close>, \<open>memory_used\<close>,
  \<open>core_bitmap_used\<close>) and its generic resources are what they were before the call:
  the errors before \<open>_create_step_record\<close> leave them alone, and every error after it
  goes through \<open>delete_step_record\<close>, which takes the new record out again, before
  anything is charged.
\<close>

theorem step_create_error_rollback:
  fixes j :: "'g job_record"
  assumes run: "step_create c p (Some j) s b lci = Some r"
    and err: "sc_rc r \<noteq> SLURM_SUCCESS"
    and fresh: "\<forall>st \<in> set (step_list j). step_id st \<noteq> next_step_id j"
  shows "sc_new_step_record r = None \<and>
         (\<exists>j'. sc_job r = Some j' \<and> step_list j' = step_list j \<and>
               job_resrcs j' = job_resrcs j \<and> job_gres_list j' = job_gres_list j)"
proof -
  from step_create_shape [OF run] show ?thesis
  proof (elim disjE conjE exE)
    fix j'
    assume "sc_new_step_record r = None" and "sc_job r = Some j'" and "same_registry j j'"
    then show ?thesis by (simp add: same_registry_def)
  next
    fix j1 st0 s3
    assume reg: "same_registry j j1"
      and out: "create_outcome
         (j1 \<lparr> step_list := step_list j1 @ [st0], next_step_id := next_step_id j1 + 1 \<rparr>)
         (length (step_list j)) (next_step_id j) s3 r"
    from reg have l1: "step_list j1 = step_list j"
      and r1: "job_resrcs j1 = job_resrcs j" and g1: "job_gres_list j1 = job_gres_list j"
      by (simp_all add: same_registry_def)
    let ?jx = "j1 \<lparr> next_step_id := next_step_id j1 + 1 \<rparr>"
    from out err obtain st where
      new: "sc_new_step_record r = None" and id: "step_id st = next_step_id j"
      and job: "sc_job r = Some (snd (delete_step_record
                  (store_step
                     (j1 \<lparr> step_list := step_list j1 @ [st0],
                           next_step_id := next_step_id j1 + 1 \<rparr>)
                     (length (step_list j)) st)
                  (next_step_id j)))"
      unfolding create_outcome_def by auto
    have fresh': "\<forall>x \<in> set (step_list ?jx). step_id x \<noteq> next_step_id j"
      using fresh by (simp add: l1)
    have eq: "j1 \<lparr> step_list := step_list j1 @ [st0], next_step_id := next_step_id j1 + 1 \<rparr> =
          ?jx \<lparr> step_list := step_list ?jx @ [st0] \<rparr>"
      by simp
    have len: "length (step_list j) = length (step_list ?jx)"
      by (simp add: l1)
    have "sc_job r = Some ?jx"
      unfolding job eq len rollback_restores [OF fresh' id] ..
    with new l1 r1 g1 show ?thesis by simp
  qed
qed

theorem step_create_error_rollback_witness:
  "\<exists>r j'. step_create ex_ctld_limits ex_plugins (Some ex_job) ex_request_long False 0 = Some r \<and>
      sc_rc r = ESLURM_INVALID_TIME_LIMIT \<and> sc_new_step_record r = None \<and>
      sc_job r = Some j' \<and> step_list j' = [ex_step] \<and>
      job_resrcs j' = job_resrcs ex_job \<and> job_gres_list j' = job_gres_list ex_job"
proof -
  have rc: "map_option sc_rc
              (step_create ex_ctld_limits ex_plugins (Some ex_job) ex_request_long False 0) =
            Some ESLURM_INVALID_TIME_LIMIT"
    by code_simp
  then obtain r where
    run: "step_create ex_ctld_limits ex_plugins (Some ex_job) ex_request_long False 0 = Some r"
    and e: "sc_rc r = ESLURM_INVALID_TIME_LIMIT"
    by auto
  from e have err: "sc_rc r \<noteq> SLURM_SUCCESS" by simp
  have sl: "step_list ex_job = [ex_step]"
    by (simp add: ex_job_def)
  have "step_id ex_step \<noteq> next_step_id ex_job"
    by code_simp
  then have fresh: "\<forall>st \<in> set (step_list ex_job). step_id st \<noteq> next_step_id ex_job"
    by (simp add: sl)
  from step_create_error_rollback [OF run err fresh] run e show ?thesis
    unfolding sl by blast
qed

end
